theory Spec2Isabelle
  imports Main
begin

section \<open>Values, records and collections of \<open>index.js\<close>\<close>

text \<open>
  The application keeps three JSON files (\<open>timers\<close>, \<open>users\<close>, \<open>sessions\<close>) and serves
  seven routes. Every handler reads whole collections, changes them in memory and writes
  them back. The model threads the contents of the three files through each handler as an
  explicit \<open>store\<close>, and the Express response object as an explicit \<open>res\<close>.

  Values that arrive in a request (\<open>req.body.*\<close>, \<open>req.query.*\<close>) are JavaScript values. The
  handlers only test them for truthiness (\<open>!x\<close>), compare them with \<open>===\<close> and store them, so
  the model keeps the shapes that decide those tests. \<open>JObj\<close> stands for any object or array:
  it is truthy and never \<open>===\<close> to a value that was parsed elsewhere. Numbers are modelled as
  integers (a fractional number behaves as a non-zero one in every test made here), and
  the two numbers that are not finite: \<open>JSON.parse\<close> reads a literal beyond the range of
  a double, such as \<open>1e400\<close> or \<open>-1e400\<close>, as \<open>Infinity\<close> or \<open>-Infinity\<close>.
\<close>

datatype jsval =
  JUndefined | JNull | JBool bool | JNum int | JInfinity | JNegInfinity | JStr string | JObj

fun truthy :: "jsval \<Rightarrow> bool" where
  "truthy JUndefined = False"
| "truthy JNull = False"
| "truthy (JBool b) = b"
| "truthy (JNum n) = (n \<noteq> 0)"
| "truthy JInfinity = True"
| "truthy JNegInfinity = True"
| "truthy (JStr s) = (s \<noteq> [])"
| "truthy JObj = True"

definition strict_eq :: "jsval \<Rightarrow> jsval \<Rightarrow> bool" where
  "strict_eq a b = (a = b \<and> a \<noteq> JObj)"

text \<open>
  What \<open>JSON.parse(JSON.stringify(...))\<close> makes of the value of a property:
  \<open>JSON.stringify\<close> writes a number that is not finite as \<open>null\<close>, and leaves out a property
  that is \<open>undefined\<close>.
\<close>

fun to_json :: "jsval \<Rightarrow> jsval" where
  "to_json JInfinity = JNull"
| "to_json JNegInfinity = JNull"
| "to_json JUndefined = JUndefined"
| "to_json JNull = JNull"
| "to_json (JBool b) = JBool b"
| "to_json (JNum n) = JNum n"
| "to_json (JStr s) = JStr s"
| "to_json JObj = JObj"

text \<open>
  The records, with the source's field names where they are free: \<open>_id\<close> is \<open>u_id\<close>, a
  timer's \<open>id\<close> and \<open>end\<close> are \<open>timer_id\<close> and \<open>timer_end\<close>, and the \<open>userId\<close> of a session
  is \<open>session_userId\<close>. A field that may be missing from the JSON object is an option:
  \<open>end\<close> and \<open>duration\<close> are written by the stop route only, and \<open>userId\<close> is dropped by
  \<open>JSON.stringify\<close> when the handler stored \<open>undefined\<close> in it.
\<close>

record user =
  u_id :: string
  username :: jsval
  password :: string

record session =
  session_userId :: string

record timer =
  timer_id :: string
  start :: int
  description :: jsval
  isActive :: bool
  userId :: "string option"
  progress :: int
  timer_end :: "int option"
  duration :: "int option"

text \<open>A record as \<open>JSON.stringify\<close> writes it, to a file or into a response.\<close>

definition stored_user :: "user \<Rightarrow> user" where
  "stored_user u = u\<lparr>username := to_json (username u)\<rparr>"

definition stored_timer :: "timer \<Rightarrow> timer" where
  "stored_timer t = t\<lparr>description := to_json (description t)\<rparr>"

datatype db = TIMERS | USERS | SESSIONS

text \<open>
  The three files exist from start-up on (the constructor of \<open>db\<close> creates each with its
  initial data), so the store is their contents. \<open>writes\<close> logs every call of
  \<open>db.write\<close>, in order, so that "no write is performed" can be told from "the same
  contents were written again".

  \<open>db.write\<close> serialises what it is given and \<open>db.read\<close> parses the file, so a store holds
  what JSON holds. \<open>USERS_write\<close> stores every user as \<open>stored_user\<close> gives it. The timer
  routes write back the timers they have read, which JSON leaves as they are, and at most
  one timer built from the request, which the start route hands over as \<open>stored_timer\<close>
  gives it.
\<close>

record store =
  timers :: "timer list"
  users :: "user list"
  sessions :: "string \<rightharpoonup> session"
  writes :: "db list"

definition initial_store :: store where
  "initial_store = \<lparr>timers = [], users = [], sessions = Map.empty, writes = []\<rparr>"

definition TIMERS_read :: "store \<Rightarrow> timer list" where
  "TIMERS_read s = timers s"

definition USERS_read :: "store \<Rightarrow> user list" where
  "USERS_read s = users s"

definition SESSIONS_read :: "store \<Rightarrow> (string \<rightharpoonup> session)" where
  "SESSIONS_read s = sessions s"

definition TIMERS_write :: "timer list \<Rightarrow> store \<Rightarrow> store" where
  "TIMERS_write d s = s\<lparr>timers := d, writes := writes s @ [TIMERS]\<rparr>"

definition USERS_write :: "user list \<Rightarrow> store \<Rightarrow> store" where
  "USERS_write d s = s\<lparr>users := map stored_user d, writes := writes s @ [USERS]\<rparr>"

definition SESSIONS_write :: "(string \<rightharpoonup> session) \<Rightarrow> store \<Rightarrow> store" where
  "SESSIONS_write d s = s\<lparr>sessions := d, writes := writes s @ [SESSIONS]\<rparr>"

section \<open>Requests, the environment and the response object\<close>

text \<open>
  A request carries the cookie \<open>sessionId\<close> (a string, or absent), the body fields
  \<open>username\<close>, \<open>password\<close> and \<open>description\<close>, the query fields \<open>isActive\<close> and \<open>authError\<close>,
  and the route parameter \<open>id\<close>; a field that is absent is \<open>JUndefined\<close> (\<open>req.body\<close> and
  \<open>req.query\<close> are objects, as the body parsers and Express leave them). What a handler
  draws from outside the program is the environment of the request: the results of its
  calls of \<open>nanoid()\<close> in order, of \<open>Date.now()\<close>, and of bcrypt, whose \<open>hash\<close> and \<open>compare\<close>
  reject data that is not a string.
\<close>

record req =
  cookies_sessionId :: "string option"
  body_username :: jsval
  body_password :: jsval
  body_description :: jsval
  query_isActive :: jsval
  query_authError :: jsval
  params_id :: string

record env =
  nanoid_1 :: string
  nanoid_2 :: string
  Date_now :: int
  bcrypt_hash :: "string \<Rightarrow> string"
  bcrypt_compare :: "string \<Rightarrow> string \<Rightarrow> bool"

datatype error =
  ERR_HTTP_HEADERS_SENT
| Description_required
| Bcrypt_hash_error
| Bcrypt_compare_error

fun message :: "error \<Rightarrow> string" where
  "message ERR_HTTP_HEADERS_SENT = ''Cannot set headers after they are sent to the client''"
| "message Description_required = ''Description is required''"
| "message Bcrypt_hash_error =
     ''data must be a string or Buffer and salt must either be a salt string or a number of rounds''"
| "message Bcrypt_compare_error = ''data and hash must be strings''"

text \<open>
  What a response can carry. \<open>Message m\<close> is \<open>{ message: m }\<close>; \<open>MessageError m err\<close> is
  \<open>{ message: m, error: err }\<close>, where \<open>err\<close> is the exception that was caught;
  \<open>View name user authError\<close> is the context handed to \<open>res.render\<close>, where a \<open>user\<close> that
  is \<open>null\<close> or \<open>undefined\<close> is \<open>None\<close>.
\<close>

datatype payload =
  Message string
| MessageError string error
| TimerJson timer
| TimersJson "timer list"
| Text string
| Redirect string
| View string "user option" jsval

text \<open>
  The response object: \<open>statusCode\<close> is the property \<open>res.status\<close> sets, \<open>cookies\<close> the
  \<open>Set-Cookie\<close> headers (\<open>None\<close> clears the cookie), and \<open>sent\<close> what went to the client, once
  it did. Express sends one response; a method that writes a header after that throws
  \<open>ERR_HTTP_HEADERS_SENT\<close>, while \<open>res.status\<close> only assigns the property.
\<close>

record res =
  statusCode :: nat
  cookies :: "(string \<times> string option) list"
  sent :: "(nat \<times> payload) option"

definition fresh_res :: res where
  "fresh_res = \<lparr>statusCode = 200, cookies = [], sent = None\<rparr>"

definition res_status :: "nat \<Rightarrow> res \<Rightarrow> res" where
  "res_status n r = r\<lparr>statusCode := n\<rparr>"

definition res_end :: "payload \<Rightarrow> res \<Rightarrow> error + res" where
  "res_end p r =
     (if sent r \<noteq> None then Inl ERR_HTTP_HEADERS_SENT
      else Inr (r\<lparr>sent := Some (statusCode r, p)\<rparr>))"

definition res_json :: "payload \<Rightarrow> res \<Rightarrow> error + res" where
  "res_json p r = res_end p r"

definition res_send :: "string \<Rightarrow> res \<Rightarrow> error + res" where
  "res_send t r = res_end (Text t) r"

definition res_render :: "string \<Rightarrow> user option \<Rightarrow> jsval \<Rightarrow> res \<Rightarrow> error + res" where
  "res_render v u a r = res_end (View v u a) r"

definition res_redirect :: "string \<Rightarrow> res \<Rightarrow> error + res" where
  "res_redirect url r = res_end (Redirect url) (res_status 302 r)"

definition res_cookie :: "string \<Rightarrow> string \<Rightarrow> res \<Rightarrow> error + res" where
  "res_cookie n v r =
     (if sent r \<noteq> None then Inl ERR_HTTP_HEADERS_SENT
      else Inr (r\<lparr>cookies := cookies r @ [(n, Some v)]\<rparr>))"

definition res_clearCookie :: "string \<Rightarrow> res \<Rightarrow> error + res" where
  "res_clearCookie n r =
     (if sent r \<noteq> None then Inl ERR_HTTP_HEADERS_SENT
      else Inr (r\<lparr>cookies := cookies r @ [(n, None)]\<rparr>))"

text \<open>
  A handler ends by returning, or by an exception that nothing in it catches; in both
  cases the store and the response object are what the handler left.
\<close>

datatype result = Done store res | Uncaught store res error

fun store_of :: "result \<Rightarrow> store" where
  "store_of (Done s r) = s"
| "store_of (Uncaught s r e) = s"

fun res_of :: "result \<Rightarrow> res" where
  "res_of (Done s r) = r"
| "res_of (Uncaught s r e) = r"

fun uncaught :: "result \<Rightarrow> error option" where
  "uncaught (Done s r) = None"
| "uncaught (Uncaught s r e) = Some e"

definition finish :: "store \<Rightarrow> res \<Rightarrow> error + res \<Rightarrow> result" where
  "finish s r x = (case x of Inl e \<Rightarrow> Uncaught s r e | Inr r' \<Rightarrow> Done s r')"

text \<open>\<open>res.status(n).json(p)\<close> as the last statement of a handler.\<close>

definition respond_json :: "nat \<Rightarrow> payload \<Rightarrow> store \<Rightarrow> res \<Rightarrow> result" where
  "respond_json n p s r = finish s (res_status n r) (res_json p (res_status n r))"

definition try_finish ::
  "(store \<Rightarrow> res \<Rightarrow> error \<Rightarrow> result) \<Rightarrow> store \<Rightarrow> res \<Rightarrow> error + res \<Rightarrow> result" where
  "try_finish catch s r x = (case x of Inl e \<Rightarrow> catch s r e | Inr r' \<Rightarrow> Done s r')"

section \<open>Sessions\<close>

text \<open>
  \<open>sessions[sessionId]\<close> reads a property of the object parsed from \<open>sessions.json\<close>: an own
  property if the file has the key, else a property inherited from \<open>Object.prototype\<close>, else
  \<open>undefined\<close>. The variable \<open>session\<close> of a handler therefore holds a session record, an
  inherited function or object, or (see \<open>checkSession\<close>) the response object. All three are
  objects, hence truthy; only the first has a \<open>userId\<close>.
\<close>

datatype jsobj = Session session | Inherited | Response

fun truthy_obj :: "jsobj \<Rightarrow> bool" where
  "truthy_obj (Session v) = True"
| "truthy_obj Inherited = True"
| "truthy_obj Response = True"

fun prop_userId :: "jsobj \<Rightarrow> string option" where
  "prop_userId (Session v) = Some (session_userId v)"
| "prop_userId Inherited = None"
| "prop_userId Response = None"

definition Object_prototype :: "string list" where
  "Object_prototype =
     [''constructor'', ''__defineGetter__'', ''__defineSetter__'', ''hasOwnProperty'',
      ''__lookupGetter__'', ''__lookupSetter__'', ''isPrototypeOf'', ''propertyIsEnumerable'',
      ''toString'', ''valueOf'', ''__proto__'', ''toLocaleString'']"

definition get_prop :: "(string \<rightharpoonup> session) \<Rightarrow> string \<Rightarrow> jsobj option" where
  "get_prop ss k =
     (case ss k of
        Some v \<Rightarrow> Some (Session v)
      | None \<Rightarrow> if k \<in> set Object_prototype then Some Inherited else None)"

text \<open>The property key of a cookie value: \<open>undefined\<close> is converted to the string.\<close>

fun prop_key :: "string option \<Rightarrow> string" where
  "prop_key None = ''undefined''"
| "prop_key (Some k) = k"

fun truthy_str :: "string option \<Rightarrow> bool" where
  "truthy_str None = False"
| "truthy_str (Some k) = (k \<noteq> [])"

text \<open>
  \<open>updateSession(user)\<close>; its first argument here is the result of its call of \<open>nanoid()\<close>,
  21 characters of \<open>A-Za-z0-9_-\<close>: the assignment \<open>sessions[sessionId] = ...\<close> creates or
  overwrites an own property of that name.
\<close>

definition updateSession :: "string \<Rightarrow> user \<Rightarrow> store \<Rightarrow> string \<times> store" where
  "updateSession sessionId u s =
     (let ss = SESSIONS_read s;
          ss' = ss(sessionId \<mapsto> \<lparr>session_userId = u_id u\<rparr>)
      in (sessionId, SESSIONS_write ss' s))"

text \<open>
  \<open>checkSession(req, res)\<close> returns the session, or what \<open>res.status(401).json(...)\<close>
  returns, which is the response object itself.
\<close>

definition checkSession :: "req \<Rightarrow> store \<Rightarrow> res \<Rightarrow> error + (jsobj \<times> res)" where
  "checkSession rq s r =
     (let sessionId = cookies_sessionId rq;
          ss = SESSIONS_read s;
          session = get_prop ss (prop_key sessionId)
      in case (if truthy_str sessionId then session else None) of
           None \<Rightarrow>
             (case res_json (Message ''Unauthorized'') (res_status 401 r) of
                Inl e \<Rightarrow> Inl e
              | Inr r' \<Rightarrow> Inr (Response, r'))
         | Some v \<Rightarrow> Inr (v, r))"

section \<open>The route handlers\<close>

text \<open>
  Each handler is the function of its route, in the order of the source. Local variables
  that would hide a record field are shortened (\<open>uname\<close>, \<open>pwd\<close>, \<open>us\<close>, \<open>ts\<close>, \<open>ss\<close>). A request
  is handled from its first statement to its last without another request in between.
\<close>

definition signup_catch :: "store \<Rightarrow> res \<Rightarrow> error \<Rightarrow> result" where
  "signup_catch s r e = respond_json 500 (MessageError ''Error creating user'' e) s r"

definition post_signup :: "env \<Rightarrow> req \<Rightarrow> store \<Rightarrow> res \<Rightarrow> result" where
  "post_signup e rq s r =
     (let uname = body_username rq; pwd = body_password rq in
      if \<not> truthy uname \<or> \<not> truthy pwd
      then respond_json 400 (Message ''Username and password are required'') s r
      else
        let us = USERS_read s in
        case find (\<lambda>u. strict_eq (username u) uname) us of
          Some existingUser \<Rightarrow> respond_json 409 (Message ''Username already taken'') s r
        | None \<Rightarrow>
            (case pwd of
               JStr p \<Rightarrow>
                 let hashedPassword = bcrypt_hash e p;
                     newUser = \<lparr>u_id = nanoid_1 e, username = uname, password = hashedPassword\<rparr>;
                     s1 = USERS_write (us @ [newUser]) s;
                     (sessionId, s2) = updateSession (nanoid_2 e) newUser s1
                 in (case res_cookie ''sessionId'' sessionId r of
                       Inl err \<Rightarrow> signup_catch s2 r err
                     | Inr r1 \<Rightarrow> try_finish signup_catch s2 r1 (res_redirect ''/'' r1))
             | _ \<Rightarrow> signup_catch s r Bcrypt_hash_error))"

definition login_catch :: "store \<Rightarrow> res \<Rightarrow> error \<Rightarrow> result" where
  "login_catch s r e = respond_json 500 (MessageError ''Error during login'' e) s r"

definition post_login :: "env \<Rightarrow> req \<Rightarrow> store \<Rightarrow> res \<Rightarrow> result" where
  "post_login e rq s r =
     (let uname = body_username rq; pwd = body_password rq in
      if \<not> truthy uname \<or> \<not> truthy pwd
      then respond_json 400 (Message ''Username and password are required'') s r
      else
        let us = USERS_read s in
        case find (\<lambda>u. strict_eq (username u) uname) us of
          None \<Rightarrow> respond_json 404 (Message ''User not found'') s r
        | Some u \<Rightarrow>
            (case pwd of
               JStr p \<Rightarrow>
                 if \<not> bcrypt_compare e p (password u)
                 then
                   let r1 = res_status 401 r
                   in try_finish login_catch s r1 (res_json (Message ''Incorrect password'') r1)
                 else
                   let (sessionId, s1) = updateSession (nanoid_1 e) u s
                   in (case res_cookie ''sessionId'' sessionId r of
                         Inl err \<Rightarrow> login_catch s1 r err
                       | Inr r1 \<Rightarrow> try_finish login_catch s1 r1 (res_redirect ''/'' r1))
             | _ \<Rightarrow> login_catch s r Bcrypt_compare_error))"

definition get_logout :: "env \<Rightarrow> req \<Rightarrow> store \<Rightarrow> res \<Rightarrow> result" where
  "get_logout e rq s r =
     (case checkSession rq s r of
        Inl err \<Rightarrow> Uncaught s (res_status 401 r) err
      | Inr (session, r1) \<Rightarrow>
          if \<not> truthy_obj session then Done s r1
          else
            let ss = SESSIONS_read s;
                ss' = ss(prop_key (cookies_sessionId rq) := None);
                s1 = SESSIONS_write ss' s
            in (case res_clearCookie ''sessionId'' r1 of
                  Inl err \<Rightarrow> Uncaught s1 r1 err
                | Inr r2 \<Rightarrow> finish s1 r2 (res_redirect ''/'' r2)))"

definition get_home :: "env \<Rightarrow> req \<Rightarrow> store \<Rightarrow> res \<Rightarrow> result" where
  "get_home e rq s r =
     (let sessionId = cookies_sessionId rq;
          u = (if truthy_str sessionId
               then (case get_prop (SESSIONS_read s) (prop_key sessionId) of
                       Some session \<Rightarrow>
                         find (\<lambda>u. Some (u_id u) = prop_userId session) (USERS_read s)
                     | None \<Rightarrow> None)
               else None);
          authError = (if strict_eq (query_authError rq) (JStr ''true'')
                       then JStr ''Wrong username or password''
                       else query_authError rq)
      in finish s r (res_render ''index'' u authError r))"

definition get_timers :: "env \<Rightarrow> req \<Rightarrow> store \<Rightarrow> res \<Rightarrow> result" where
  "get_timers e rq s r =
     (case checkSession rq s r of
        Inl err \<Rightarrow> Uncaught s (res_status 401 r) err
      | Inr (session, r1) \<Rightarrow>
          if \<not> truthy_obj session then Done s r1
          else
            let isActiveBool = strict_eq (query_isActive rq) (JStr ''true'');
                ts = TIMERS_read s;
                filteredTimers =
                  filter (\<lambda>t. isActive t = isActiveBool \<and> userId t = prop_userId session) ts
            in finish s r1 (res_json (TimersJson filteredTimers) r1))"

definition timers_catch :: "store \<Rightarrow> res \<Rightarrow> error \<Rightarrow> result" where
  "timers_catch s r e = respond_json 400 (Message (message e)) s r"

definition post_timers :: "env \<Rightarrow> req \<Rightarrow> store \<Rightarrow> res \<Rightarrow> result" where
  "post_timers e rq s r =
     (case checkSession rq s r of
        Inl err \<Rightarrow> Uncaught s (res_status 401 r) err
      | Inr (session, r1) \<Rightarrow>
          if \<not> truthy_obj session then Done s r1
          else
            let d = body_description rq in
            if \<not> truthy d then timers_catch s r1 Description_required
            else
              let newTimer =
                    \<lparr>timer_id = nanoid_1 e, start = Date_now e, description = d,
                     isActive = True, userId = prop_userId session, progress = 0,
                     timer_end = None, duration = None\<rparr>;
                  ts = TIMERS_read s;
                  s1 = TIMERS_write (ts @ [stored_timer newTimer]) s;
                  r2 = res_status 201 r1
              in try_finish timers_catch s1 r2 (res_json (TimerJson (stored_timer newTimer)) r2))"

text \<open>
  \<open>timers.find\<close> returns the first matching element of the array itself, and the handler
  assigns to its fields before it writes the array: the element is updated in place.
\<close>

fun findIndex :: "('a \<Rightarrow> bool) \<Rightarrow> 'a list \<Rightarrow> nat option" where
  "findIndex P [] = None"
| "findIndex P (x # xs) = (if P x then Some 0 else map_option Suc (findIndex P xs))"

definition post_timers_stop :: "env \<Rightarrow> req \<Rightarrow> store \<Rightarrow> res \<Rightarrow> result" where
  "post_timers_stop e rq s r =
     (case checkSession rq s r of
        Inl err \<Rightarrow> Uncaught s (res_status 401 r) err
      | Inr (session, r1) \<Rightarrow>
          if \<not> truthy_obj session then Done s r1
          else
            let tid = params_id rq;
                ts = TIMERS_read s
            in (case findIndex (\<lambda>t. timer_id t = tid \<and> userId t = prop_userId session) ts of
                  None \<Rightarrow>
                    let r2 = res_status 403 r1 in finish s r2 (res_send ''Access denied'' r2)
                | Some i \<Rightarrow>
                    let t0 = ts ! i;
                        t1 = t0\<lparr>isActive := False\<rparr>;
                        t2 = t1\<lparr>timer_end := Some (Date_now e)\<rparr>;
                        t3 = t2\<lparr>duration := Some (Date_now e - start t2)\<rparr>;
                        s1 = TIMERS_write (ts[i := t3]) s
                    in respond_json 200 (TimerJson t3) s1 r1))"

text \<open>Express calls the handler of the route with a response object nothing has used.\<close>

datatype route =
  POST_signup | POST_login | GET_logout | GET_home | GET_timers | POST_timers | POST_timers_stop

fun handle :: "route \<Rightarrow> env \<Rightarrow> req \<Rightarrow> store \<Rightarrow> result" where
  "handle POST_signup e rq s = post_signup e rq s fresh_res"
| "handle POST_login e rq s = post_login e rq s fresh_res"
| "handle GET_logout e rq s = get_logout e rq s fresh_res"
| "handle GET_home e rq s = get_home e rq s fresh_res"
| "handle GET_timers e rq s = get_timers e rq s fresh_res"
| "handle POST_timers e rq s = post_timers e rq s fresh_res"
| "handle POST_timers_stop e rq s = post_timers_stop e rq s fresh_res"

section \<open>Notions the properties are stated with\<close>

text \<open>
  A request is authenticated as user \<open>u\<close> when its cookie is a non-empty string that is a
  key of the session mapping, bound to \<open>{ userId: u }\<close>.
\<close>

definition authenticated :: "store \<Rightarrow> req \<Rightarrow> string \<Rightarrow> bool" where
  "authenticated s rq u =
     (case cookies_sessionId rq of
        None \<Rightarrow> False
      | Some sid \<Rightarrow> sid \<noteq> [] \<and> sessions s sid = Some \<lparr>session_userId = u\<rparr>)"

text \<open>The status and the payload that reached the client.\<close>

definition status_of :: "result \<Rightarrow> nat option" where
  "status_of out = map_option fst (sent (res_of out))"

definition payload_of :: "result \<Rightarrow> payload option" where
  "payload_of out = map_option snd (sent (res_of out))"

text \<open>
  A User collection that holds what JSON holds: writing it and reading it back changes no
  username. Every collection the program writes is one.
\<close>

definition json_users :: "user list \<Rightarrow> bool" where
  "json_users us = list_all (\<lambda>u. to_json (username u) = username u) us"

text \<open>Requests handled one after the other, each with its own environment.\<close>

fun run :: "(route \<times> env \<times> req) list \<Rightarrow> store \<Rightarrow> store" where
  "run [] s = s"
| "run ((rt, e, rq) # ops) s = run ops (store_of (handle rt e rq s))"

text \<open>
  Two stores that differ at most in the \<open>password\<close> fields of their users: the same timers
  and sessions, and users with the same ids and usernames at the same places.
\<close>

definition hash_blind :: "store \<Rightarrow> store \<Rightarrow> bool" where
  "hash_blind s s' =
     (timers s' = timers s \<and> sessions s' = sessions s \<and>
      map u_id (users s') = map u_id (users s) \<and>
      map username (users s') = map username (users s))"

text \<open>
  Two environments that differ at most in bcrypt: \<open>nanoid()\<close> and \<open>Date.now()\<close> return the
  same in both.
\<close>

definition same_draws :: "env \<Rightarrow> env \<Rightarrow> bool" where
  "same_draws e e' =
     (nanoid_1 e' = nanoid_1 e \<and> nanoid_2 e' = nanoid_2 e \<and> Date_now e' = Date_now e)"

text \<open>What the three assignments of the stop route make of a timer.\<close>

definition stopped :: "env \<Rightarrow> timer \<Rightarrow> timer" where
  "stopped e t =
     t\<lparr>isActive := False, timer_end := Some (Date_now e),
       duration := Some (Date_now e - start t)\<rparr>"

text \<open>
  \<open>kept t t'\<close>: the timer \<open>t'\<close> has the identity and the start of \<open>t\<close>, and is active only
  if \<open>t\<close> is.
\<close>

definition kept :: "timer \<Rightarrow> timer \<Rightarrow> bool" where
  "kept t t' =
     (timer_id t' = timer_id t \<and> userId t' = userId t \<and> description t' = description t \<and>
      start t' = start t \<and> progress t' = progress t \<and> (isActive t' \<longrightarrow> isActive t))"

text \<open>The response object after \<open>checkSession\<close> has rejected a request.\<close>

definition unauthorized :: res where
  "unauthorized = \<lparr>statusCode = 401, cookies = [], sent = Some (401, Message ''Unauthorized'')\<rparr>"

subsection \<open>Concrete requests and stores\<close>

definition example_hash :: "string \<Rightarrow> string" where
  "example_hash p = ''$2b$10$'' @ p"

definition example_compare :: "string \<Rightarrow> string \<Rightarrow> bool" where
  "example_compare p h = (h = ''$2b$10$'' @ p)"

definition env_with :: "string \<Rightarrow> string \<Rightarrow> int \<Rightarrow> env" where
  "env_with n1 n2 now =
     \<lparr>nanoid_1 = n1, nanoid_2 = n2, Date_now = now,
      bcrypt_hash = example_hash, bcrypt_compare = example_compare\<rparr>"

definition blank_req :: req where
  "blank_req =
     \<lparr>cookies_sessionId = None, body_username = JUndefined, body_password = JUndefined,
      body_description = JUndefined, query_isActive = JUndefined,
      query_authError = JUndefined, params_id = []\<rparr>"

definition alice :: user where
  "alice = \<lparr>u_id = ''V1StGXR8_Z5jdHi6B-myT'', username = JStr ''alice'',
            password = ''$2b$10$pw1''\<rparr>"

definition bob :: user where
  "bob = \<lparr>u_id = ''Uakgb_J5m9g-0JDMbcJqL'', username = JStr ''bob'',
          password = ''$2b$10$pw2''\<rparr>"

definition timer_a1 :: timer where
  "timer_a1 =
     \<lparr>timer_id = ''timerOneIdentifierAA1'', start = 1000, description = JStr ''write spec'',
      isActive = True, userId = Some ''V1StGXR8_Z5jdHi6B-myT'', progress = 0,
      timer_end = None, duration = None\<rparr>"

definition timer_b1 :: timer where
  "timer_b1 =
     \<lparr>timer_id = ''timerTwoIdentifierBB2'', start = 1500, description = JStr ''review'',
      isActive = True, userId = Some ''Uakgb_J5m9g-0JDMbcJqL'', progress = 0,
      timer_end = None, duration = None\<rparr>"

definition timer_a2 :: timer where
  "timer_a2 =
     \<lparr>timer_id = ''timerThreeIdentifier3'', start = 500, description = JStr ''lunch'',
      isActive = False, userId = Some ''V1StGXR8_Z5jdHi6B-myT'', progress = 0,
      timer_end = Some 900, duration = Some 400\<rparr>"

definition example_store :: store where
  "example_store =
     \<lparr>timers = [timer_a1, timer_b1, timer_a2],
      users = [alice, bob],
      sessions = [''aliceSessionTokenAAA1'' \<mapsto> \<lparr>session_userId = ''V1StGXR8_Z5jdHi6B-myT''\<rparr>,
                  ''bobSessionTokenBBBBB2'' \<mapsto> \<lparr>session_userId = ''Uakgb_J5m9g-0JDMbcJqL''\<rparr>],
      writes = []\<rparr>"

text \<open>The example store with another hash for alice.\<close>

definition rehashed_store :: store where
  "rehashed_store = example_store\<lparr>users := [alice\<lparr>password := ''$2b$10$zz''\<rparr>, bob]\<rparr>"

definition alice_req :: req where
  "alice_req = blank_req\<lparr>cookies_sessionId := Some ''aliceSessionTokenAAA1''\<rparr>"

text \<open>
  Requests and environments of a small history: alice signs up, starts a timer and stops
  it; carol signs up; alice logs in again and starts another timer.
\<close>

definition alice_signup :: req where
  "alice_signup = blank_req\<lparr>body_username := JStr ''alice'', body_password := JStr ''pw1''\<rparr>"
definition alice_signup_op :: "route \<times> env \<times> req" where
  "alice_signup_op =
     (POST_signup, env_with ''V1StGXR8_Z5jdHi6B-myT'' ''aliceSessionTokenAAA1'' 100, alice_signup)"
definition alice_start_op :: "route \<times> env \<times> req" where
  "alice_start_op =
     (POST_timers, env_with ''timerOneIdentifierAA1'' [] 1000,
      alice_req\<lparr>body_description := JStr ''write spec''\<rparr>)"
definition alice_stop_op :: "int \<Rightarrow> route \<times> env \<times> req" where
  "alice_stop_op now =
     (POST_timers_stop, env_with [] [] now, alice_req\<lparr>params_id := ''timerOneIdentifierAA1''\<rparr>)"
definition carol_signup :: req where
  "carol_signup = blank_req\<lparr>body_username := JStr ''carol'', body_password := JStr ''pw3''\<rparr>"
definition carol_env :: env where
  "carol_env = env_with ''carolUserIdentifierC3'' ''carolSessionTokenCCC3'' 4000"
definition carol :: user where
  "carol = \<lparr>u_id = ''carolUserIdentifierC3'', username = JStr ''carol'',
            password = ''$2b$10$pw3''\<rparr>"
text \<open>An environment with another bcrypt: other salts, so other hashes.\<close>

definition other_bcrypt :: "env \<Rightarrow> env" where
  "other_bcrypt e =
     e\<lparr>bcrypt_hash := (\<lambda>p. ''$2b$12$'' @ p), bcrypt_compare := (\<lambda>p h. h = ''$2b$12$'' @ p)\<rparr>"

definition bob_login :: req where
  "bob_login = blank_req\<lparr>body_username := JStr ''bob'', body_password := JStr ''pw2''\<rparr>"

text \<open>A signup whose username is the number \<open>1e400\<close>, sent twice.\<close>

definition overflow_signup :: req where
  "overflow_signup = blank_req\<lparr>body_username := JInfinity, body_password := JStr ''pw4''\<rparr>"

definition overflow_env_1 :: env where
  "overflow_env_1 = env_with ''overflowUserIdentifA1'' ''overflowSessionTokeA1'' 6000"

definition overflow_env_2 :: env where
  "overflow_env_2 = env_with ''overflowUserIdentifB2'' ''overflowSessionTokeB2'' 7000"

definition login_env :: env where
  "login_env = env_with ''aliceSecondSessionXX2'' [] 5000"
definition fresh_env :: env where
  "fresh_env = env_with ''freshTimerIdentifier4'' [] 5000"
definition fresh_timer :: timer where
  "fresh_timer =
     \<lparr>timer_id = ''freshTimerIdentifier4'', start = 5000, description = JStr ''new task'',
      isActive = True, userId = Some ''V1StGXR8_Z5jdHi6B-myT'', progress = 0,
      timer_end = None, duration = None\<rparr>"

section \<open>Facts about the building blocks\<close>

lemmas res_defs = res_status_def res_end_def res_json_def res_send_def res_render_def
  res_redirect_def res_cookie_def res_clearCookie_def fresh_res_def

lemmas db_defs = TIMERS_read_def USERS_read_def SESSIONS_read_def TIMERS_write_def
  USERS_write_def SESSIONS_write_def stored_user_def stored_timer_def

lemmas flow_defs = finish_def try_finish_def respond_json_def signup_catch_def
  login_catch_def timers_catch_def

lemmas handler_defs = post_signup_def post_login_def get_logout_def get_home_def
  get_timers_def post_timers_def post_timers_stop_def checkSession_def updateSession_def
  get_prop_def

lemmas example_defs = example_store_def alice_def bob_def timer_a1_def timer_b1_def
  timer_a2_def alice_req_def blank_req_def env_with_def example_hash_def
  example_compare_def initial_store_def authenticated_def

lemma truthy_obj_always: "truthy_obj v"
  by (cases v) simp_all

lemma strict_eq_JStr: "strict_eq v (JStr x) \<longleftrightarrow> v = JStr x"
  by (auto simp: strict_eq_def)

lemma findIndex_None: "findIndex P xs = None \<longleftrightarrow> (\<forall>x\<in>set xs. \<not> P x)"
  by (induction xs) auto

lemma findIndex_Some:
  "findIndex P xs = Some i \<longleftrightarrow> i < length xs \<and> P (xs ! i) \<and> (\<forall>j<i. \<not> P (xs ! j))"
proof (induction xs arbitrary: i)
  case Nil
  then show ?case by simp
next
  case (Cons x xs)
  show ?case
  proof (cases "P x")
    case True
    then show ?thesis by (cases i) auto
  next
    case False
    then show ?thesis using Cons.IH
      by (cases i) (auto simp: less_Suc_eq_0_disj)
  qed
qed

lemma find_in_set: "find P xs = Some x \<Longrightarrow> x \<in> set xs"
  by (auto simp: find_Some_iff)

lemma find_in_set': "Some x = find P xs \<Longrightarrow> x \<in> set xs"
  using find_in_set [of P xs x] by simp

subsection \<open>What \<open>checkSession\<close> returns\<close>

lemma checkSession_authenticated:
  "authenticated s rq u \<Longrightarrow>
   checkSession rq s fresh_res = Inr (Session \<lparr>session_userId = u\<rparr>, fresh_res)"
  by (auto simp: authenticated_def checkSession_def SESSIONS_read_def get_prop_def
      split: option.splits)

lemma checkSession_cases:
  "checkSession rq s fresh_res =
     Inr (Response, \<lparr>statusCode = 401, cookies = [], sent = Some (401, Message ''Unauthorized'')\<rparr>)
   \<or> (\<exists>v. checkSession rq s fresh_res = Inr (v, fresh_res))"
  by (auto simp: checkSession_def res_defs Let_def split: option.splits)

lemma checkSession_own:
  "cookies_sessionId rq = Some sid \<Longrightarrow> sid \<noteq> [] \<Longrightarrow> sessions s sid = Some v \<Longrightarrow>
   checkSession rq s fresh_res = Inr (Session v, fresh_res)"
  by (simp add: checkSession_def SESSIONS_read_def get_prop_def Let_def)

text \<open>
  \<open>nanoid()\<close> returns 21 characters, so an id it made is not empty and is none of the
  names an object inherits.
\<close>

lemma nanoid_not_inherited: "length k = 21 \<Longrightarrow> k \<notin> set Object_prototype"
  by (auto simp: Object_prototype_def)

lemma checkSession_absent:
  "cookies_sessionId rq = Some sid \<Longrightarrow> sessions s sid = None \<Longrightarrow>
   sid \<notin> set Object_prototype \<Longrightarrow>
   checkSession rq s fresh_res = Inr (Response, unauthorized)"
  by (simp add: checkSession_def SESSIONS_read_def get_prop_def res_defs unauthorized_def
      Let_def)

lemma authenticated_timers_update:
  "authenticated (s\<lparr>timers := ts, writes := ws\<rparr>) rq u = authenticated s rq u"
  by (simp add: authenticated_def split: option.splits)

subsection \<open>The handlers on their main paths\<close>

lemma signup_400:
  "\<not> truthy (body_username rq) \<or> \<not> truthy (body_password rq) \<Longrightarrow>
   post_signup e rq s fresh_res =
   Done s \<lparr>statusCode = 400, cookies = [],
           sent = Some (400, Message ''Username and password are required'')\<rparr>"
  by (auto simp: post_signup_def flow_defs res_defs)

lemma signup_409:
  "truthy (body_username rq) \<Longrightarrow> truthy (body_password rq) \<Longrightarrow>
   \<exists>u\<in>set (users s). strict_eq (username u) (body_username rq) \<Longrightarrow>
   post_signup e rq s fresh_res =
   Done s \<lparr>statusCode = 409, cookies = [],
           sent = Some (409, Message ''Username already taken'')\<rparr>"
proof -
  assume t: "truthy (body_username rq)" "truthy (body_password rq)"
    and ex: "\<exists>u\<in>set (users s). strict_eq (username u) (body_username rq)"
  from ex have "find (\<lambda>u. strict_eq (username u) (body_username rq)) (users s) \<noteq> None"
    by (auto simp: find_None_iff)
  then obtain x where "find (\<lambda>u. strict_eq (username u) (body_username rq)) (users s) = Some x"
    by blast
  with t show ?thesis
    by (simp add: post_signup_def flow_defs res_defs db_defs)
qed

lemma signup_302:
  assumes "truthy (body_username rq)" and "body_password rq = JStr p" and "p \<noteq> []"
    and "\<not> (\<exists>u\<in>set (users s). strict_eq (username u) (body_username rq))"
  shows "post_signup e rq s fresh_res =
         Done (s\<lparr>users := map stored_user (users s) @
                    [\<lparr>u_id = nanoid_1 e, username = to_json (body_username rq),
                      password = bcrypt_hash e p\<rparr>],
                  sessions := (sessions s)(nanoid_2 e \<mapsto> \<lparr>session_userId = nanoid_1 e\<rparr>),
                  writes := writes s @ [USERS, SESSIONS]\<rparr>)
              \<lparr>statusCode = 302, cookies = [(''sessionId'', Some (nanoid_2 e))],
                 sent = Some (302, Redirect ''/'')\<rparr>"
proof -
  from assms(4)
  have "find (\<lambda>u. strict_eq (username u) (body_username rq)) (users s) = None"
    by (simp add: find_None_iff)
  with assms(1-3) show ?thesis
    by (simp add: post_signup_def updateSession_def flow_defs res_defs db_defs)
qed

lemma signup_500:
  assumes "truthy (body_username rq)" and "truthy (body_password rq)"
    and "\<forall>p. body_password rq \<noteq> JStr p"
    and "\<not> (\<exists>u\<in>set (users s). strict_eq (username u) (body_username rq))"
  shows "post_signup e rq s fresh_res =
         Done s \<lparr>statusCode = 500, cookies = [],
                 sent = Some (500, MessageError ''Error creating user'' Bcrypt_hash_error)\<rparr>"
proof -
  from assms(4)
  have "find (\<lambda>u. strict_eq (username u) (body_username rq)) (users s) = None"
    by (simp add: find_None_iff)
  with assms(1-3) show ?thesis
    by (cases "body_password rq")
      (simp_all add: post_signup_def flow_defs res_defs db_defs)
qed

lemma login_302:
  assumes "truthy (body_username rq)" and "body_password rq = JStr p" and "p \<noteq> []"
    and "find (\<lambda>x. strict_eq (username x) (body_username rq)) (users s) = Some usr"
    and "bcrypt_compare e p (password usr)"
  shows "post_login e rq s fresh_res =
         Done (s\<lparr>sessions := (sessions s)(nanoid_1 e \<mapsto> \<lparr>session_userId = u_id usr\<rparr>),
                  writes := writes s @ [SESSIONS]\<rparr>)
              \<lparr>statusCode = 302, cookies = [(''sessionId'', Some (nanoid_1 e))],
                 sent = Some (302, Redirect ''/'')\<rparr>"
  using assms
  by (simp add: post_login_def updateSession_def flow_defs res_defs db_defs Let_def)

lemma logout_own:
  assumes "cookies_sessionId rq = Some sid" and "sid \<noteq> []" and "sessions s sid = Some v"
  shows "get_logout e rq s fresh_res =
         Done (s\<lparr>sessions := (sessions s)(sid := None), writes := writes s @ [SESSIONS]\<rparr>)
              \<lparr>statusCode = 302, cookies = [(''sessionId'', None)],
                 sent = Some (302, Redirect ''/'')\<rparr>"
  using checkSession_own [OF assms] assms(1)
  by (simp add: get_logout_def db_defs flow_defs res_defs Let_def)

lemma resolve_then_revoke:
  assumes "cookies_sessionId rq = Some sid" and "length sid = 21"
    and "sessions s sid = Some \<lparr>session_userId = u\<rparr>"
  shows "checkSession rq s fresh_res = Inr (Session \<lparr>session_userId = u\<rparr>, fresh_res)
       \<and> checkSession rq (store_of (get_logout e rq s fresh_res)) fresh_res =
           Inr (Response, unauthorized)"
proof -
  from assms(2) have ne: "sid \<noteq> []" by auto
  have "checkSession rq (s\<lparr>sessions := (sessions s)(sid := None),
          writes := writes s @ [SESSIONS]\<rparr>) fresh_res = Inr (Response, unauthorized)"
    by (rule checkSession_absent [OF assms(1) _ nanoid_not_inherited [OF assms(2)]]) simp
  then show ?thesis
    using checkSession_own [OF assms(1) ne assms(3)] logout_own [OF assms(1) ne assms(3), of e]
    by simp
qed

lemma list_authenticated:
  assumes "authenticated s rq u"
  shows "get_timers e rq s fresh_res =
         Done s \<lparr>statusCode = 200, cookies = [],
                 sent = Some (200, TimersJson
                   (filter (\<lambda>t. isActive t = (query_isActive rq = JStr ''true'') \<and>
                                userId t = Some u) (timers s)))\<rparr>"
  using checkSession_authenticated [OF assms]
  by (simp add: get_timers_def TIMERS_read_def finish_def res_json_def res_end_def
      fresh_res_def strict_eq_JStr Let_def)

lemma start_201:
  assumes "authenticated s rq u" and "truthy (body_description rq)"
  shows "post_timers e rq s fresh_res =
         Done (s\<lparr>timers := timers s @
                    [\<lparr>timer_id = nanoid_1 e, start = Date_now e,
                      description = to_json (body_description rq), isActive = True,
                      userId = Some u, progress = 0, timer_end = None, duration = None\<rparr>],
                  writes := writes s @ [TIMERS]\<rparr>)
              \<lparr>statusCode = 201, cookies = [],
                 sent = Some (201, TimerJson
                    \<lparr>timer_id = nanoid_1 e, start = Date_now e,
                      description = to_json (body_description rq), isActive = True,
                      userId = Some u, progress = 0, timer_end = None, duration = None\<rparr>)\<rparr>"
  using checkSession_authenticated [OF assms(1)] assms(2)
  by (simp add: post_timers_def db_defs flow_defs res_defs Let_def)

subsection \<open>What a request does to the timers\<close>

lemma timers_signup: "timers (store_of (post_signup e rq s r)) = timers s"
  by (simp add: post_signup_def updateSession_def db_defs flow_defs res_defs Let_def
      split: option.splits jsval.splits sum.splits)

lemma timers_login: "timers (store_of (post_login e rq s r)) = timers s"
  by (simp add: post_login_def updateSession_def db_defs flow_defs res_defs Let_def
      split: option.splits jsval.splits sum.splits)

lemma timers_logout: "timers (store_of (get_logout e rq s r)) = timers s"
  by (simp add: get_logout_def checkSession_def db_defs flow_defs res_defs Let_def
      split: option.splits sum.splits prod.splits)

lemma timers_home: "timers (store_of (get_home e rq s r)) = timers s"
  by (simp add: get_home_def db_defs flow_defs res_defs Let_def
      split: option.splits sum.splits)

lemma timers_list: "timers (store_of (get_timers e rq s r)) = timers s"
  by (simp add: get_timers_def checkSession_def db_defs flow_defs res_defs Let_def
      split: option.splits sum.splits prod.splits)

lemma timers_start:
  "timers (store_of (post_timers e rq s r)) = timers s \<or>
   (\<exists>t. timers (store_of (post_timers e rq s r)) = timers s @ [t])"
  by (simp add: post_timers_def checkSession_def db_defs flow_defs res_defs Let_def
      split: option.splits sum.splits prod.splits)

lemma timers_stop:
  "timers (store_of (post_timers_stop e rq s r)) = timers s \<or>
   (\<exists>i<length (timers s). timer_id (timers s ! i) = params_id rq \<and>
      timers (store_of (post_timers_stop e rq s r)) = (timers s)[i := stopped e (timers s ! i)])"
proof (cases "checkSession rq s r")
  case (Inl err)
  then show ?thesis by (simp add: post_timers_stop_def)
next
  case (Inr p)
  obtain session r1 where p: "p = (session, r1)" by (cases p)
  show ?thesis
  proof (cases "findIndex (\<lambda>t. timer_id t = params_id rq \<and> userId t = prop_userId session)
                  (timers s)")
    case None
    then show ?thesis using Inr p
      by (simp add: post_timers_stop_def db_defs flow_defs res_defs Let_def split: sum.splits)
  next
    case (Some i)
    then have "i < length (timers s)" "timer_id (timers s ! i) = params_id rq"
      by (simp_all add: findIndex_Some)
    then show ?thesis using Inr p Some
      by (auto simp: post_timers_stop_def db_defs flow_defs res_defs Let_def stopped_def
          split: sum.splits)
  qed
qed

lemma handle_timers:
  "timers (store_of (handle rt e rq s)) = timers s
   \<or> (rt = POST_timers \<and> (\<exists>t. timers (store_of (handle rt e rq s)) = timers s @ [t]))
   \<or> (rt = POST_timers_stop \<and>
       (\<exists>i<length (timers s). timer_id (timers s ! i) = params_id rq \<and>
          timers (store_of (handle rt e rq s)) = (timers s)[i := stopped e (timers s ! i)]))"
proof (cases rt)
  case POST_timers
  then show ?thesis using timers_start [of e rq s fresh_res] by auto
next
  case POST_timers_stop
  then show ?thesis using timers_stop [of e rq s fresh_res] by auto
qed (simp_all add: timers_signup timers_login timers_logout timers_home timers_list)

lemma handle_timer_at:
  assumes "i < length (timers s)"
  shows "i < length (timers (store_of (handle rt e rq s)))
       \<and> (timers (store_of (handle rt e rq s)) ! i = timers s ! i
          \<or> (rt = POST_timers_stop \<and> timer_id (timers s ! i) = params_id rq \<and>
              timers (store_of (handle rt e rq s)) ! i = stopped e (timers s ! i)))"
  using handle_timers [of rt e rq s] assms
  by (auto simp: nth_append nth_list_update split: if_splits)

lemma kept_refl: "kept t t"
  by (simp add: kept_def)

lemma kept_trans: "kept a b \<Longrightarrow> kept b c \<Longrightarrow> kept a c"
  by (auto simp: kept_def)

lemma kept_stopped: "kept t (stopped e t)"
  by (simp add: kept_def stopped_def)

lemma run_timer_at:
  "i < length (timers s) \<Longrightarrow>
   i < length (timers (run ops s)) \<and> kept (timers s ! i) (timers (run ops s) ! i)"
proof (induction ops arbitrary: s)
  case Nil
  then show ?case by (simp add: kept_refl)
next
  case (Cons op ops)
  obtain rt e rq where op: "op = (rt, e, rq)" by (cases op)
  let ?s1 = "store_of (handle rt e rq s)"
  from handle_timer_at [OF Cons.prems, of rt e rq]
  have len: "i < length (timers ?s1)" and k1: "kept (timers s ! i) (timers ?s1 ! i)"
    by (auto simp: kept_refl kept_stopped)
  from Cons.IH [OF len] have "i < length (timers (run ops ?s1))"
    and "kept (timers ?s1 ! i) (timers (run ops ?s1) ! i)" by simp_all
  with k1 show ?case by (auto simp: op intro: kept_trans)
qed

subsection \<open>What a response is computed from\<close>

text \<open>
  Signup and login answer with one of a few payloads that are written out in the source.
\<close>

lemma signup_payload:
  "payload_of (post_signup e rq s fresh_res) \<in>
     {Some (Message ''Username and password are required''),
      Some (Message ''Username already taken''),
      Some (MessageError ''Error creating user'' Bcrypt_hash_error),
      Some (Redirect ''/'')}"
  by (simp add: payload_of_def post_signup_def updateSession_def db_defs flow_defs res_defs
      Let_def split: option.splits jsval.splits)

lemma login_payload:
  "payload_of (post_login e rq s fresh_res) \<in>
     {Some (Message ''Username and password are required''),
      Some (Message ''User not found''),
      Some (Message ''Incorrect password''),
      Some (MessageError ''Error during login'' Bcrypt_compare_error),
      Some (Redirect ''/'')}"
  by (simp add: payload_of_def post_login_def updateSession_def db_defs flow_defs res_defs
      Let_def split: option.splits jsval.splits)

text \<open>
  Logout and the timer routes read the sessions and the timers only: two stores with the
  same sessions and timers get the same response, whatever their users are.
\<close>

lemma checkSession_users_free:
  "sessions s' = sessions s \<Longrightarrow> checkSession rq s' r = checkSession rq s r"
  by (simp add: checkSession_def SESSIONS_read_def)

lemma logout_users_free:
  assumes "sessions s' = sessions s"
  shows "res_of (get_logout e rq s' r) = res_of (get_logout e rq s r)"
  using checkSession_users_free [OF assms, of rq r]
  by (simp add: get_logout_def db_defs flow_defs res_defs Let_def
      split: sum.splits prod.splits)

lemma list_users_free:
  assumes "sessions s' = sessions s" and "timers s' = timers s"
  shows "res_of (get_timers e rq s' r) = res_of (get_timers e rq s r)"
  using checkSession_users_free [OF assms(1), of rq r] assms(2)
  by (simp add: get_timers_def db_defs flow_defs res_defs Let_def
      split: sum.splits prod.splits)

lemma start_users_free:
  assumes "sessions s' = sessions s" and "timers s' = timers s"
  shows "res_of (post_timers e rq s' r) = res_of (post_timers e rq s r)"
  using checkSession_users_free [OF assms(1), of rq r] assms(2)
  by (simp add: post_timers_def db_defs flow_defs res_defs Let_def
      split: sum.splits prod.splits)

lemma stop_users_free:
  assumes "sessions s' = sessions s" and "timers s' = timers s"
  shows "res_of (post_timers_stop e rq s' r) = res_of (post_timers_stop e rq s r)"
  using checkSession_users_free [OF assms(1), of rq r] assms(2)
  by (simp add: post_timers_stop_def db_defs flow_defs res_defs Let_def
      split: sum.splits prod.splits option.splits)

text \<open>
  No response but the home page's, and nothing a handler leaves in the store but the
  \<open>password\<close> of a new user, is computed from a stored \<open>password\<close>; login's response is
  computed from it only as far as its status is.
\<close>

lemma find_username_blind:
  "map username us' = map username us \<Longrightarrow> map u_id us' = map u_id us \<Longrightarrow>
   rel_option (\<lambda>u u'. u_id u' = u_id u \<and> username u' = username u)
     (find (\<lambda>u. P (username u)) us) (find (\<lambda>u. P (username u)) us')"
proof (induction us arbitrary: us')
  case Nil
  then show ?case by simp
next
  case (Cons u us)
  then obtain v vs where us': "us' = v # vs" by (cases us') auto
  with Cons.prems have "username v = username u" "u_id v = u_id u"
    "map username vs = map username us" "map u_id vs = map u_id us" by simp_all
  with Cons.IH [of vs] show ?case by (simp add: us')
qed

lemma signup_blind:
  assumes "hash_blind s s'" and "same_draws e e'"
  shows "res_of (post_signup e' rq s' fresh_res) = res_of (post_signup e rq s fresh_res)"
    and "hash_blind (store_of (post_signup e rq s fresh_res))
           (store_of (post_signup e' rq s' fresh_res))"
proof -
  let ?P = "\<lambda>n. strict_eq n (body_username rq)"
  from assms have m: "map username (users s') = map username (users s)"
    "map u_id (users s') = map u_id (users s)" by (simp_all add: hash_blind_def)
  have r: "rel_option (\<lambda>u u'. u_id u' = u_id u \<and> username u' = username u)
     (find (\<lambda>u. ?P (username u)) (users s)) (find (\<lambda>u. ?P (username u)) (users s'))"
    by (rule find_username_blind [OF m])
  show "res_of (post_signup e' rq s' fresh_res) = res_of (post_signup e rq s fresh_res)"
    using r assms(2)
    by (cases "find (\<lambda>u. ?P (username u)) (users s)";
        cases "find (\<lambda>u. ?P (username u)) (users s')")
      (simp_all add: post_signup_def updateSession_def USERS_read_def USERS_write_def
        SESSIONS_read_def SESSIONS_write_def flow_defs res_defs Let_def same_draws_def
        split: jsval.splits)
  have j: "map (\<lambda>x. to_json (username x)) (users s') =
           map (\<lambda>x. to_json (username x)) (users s)"
    using arg_cong [OF m(1), of "map to_json"] by (simp add: comp_def)
  show "hash_blind (store_of (post_signup e rq s fresh_res))
           (store_of (post_signup e' rq s' fresh_res))"
    using r assms j
    by (cases "find (\<lambda>u. ?P (username u)) (users s)";
        cases "find (\<lambda>u. ?P (username u)) (users s')")
      (simp_all add: post_signup_def updateSession_def USERS_read_def USERS_write_def
        SESSIONS_read_def SESSIONS_write_def flow_defs res_defs Let_def hash_blind_def
        same_draws_def stored_user_def comp_def split: jsval.splits)
qed

lemma login_blind:
  assumes "hash_blind s s'" and "same_draws e e'"
    and "status_of (post_login e' rq s' fresh_res) = status_of (post_login e rq s fresh_res)"
  shows "res_of (post_login e' rq s' fresh_res) = res_of (post_login e rq s fresh_res)"
    and "hash_blind (store_of (post_login e rq s fresh_res))
           (store_of (post_login e' rq s' fresh_res))"
proof -
  let ?P = "\<lambda>n. strict_eq n (body_username rq)"
  from assms have m: "map username (users s') = map username (users s)"
    "map u_id (users s') = map u_id (users s)" by (simp_all add: hash_blind_def)
  have r: "rel_option (\<lambda>u u'. u_id u' = u_id u \<and> username u' = username u)
     (find (\<lambda>u. ?P (username u)) (users s)) (find (\<lambda>u. ?P (username u)) (users s'))"
    by (rule find_username_blind [OF m])
  show "res_of (post_login e' rq s' fresh_res) = res_of (post_login e rq s fresh_res)"
    using r assms(2,3)
    by (cases "find (\<lambda>u. ?P (username u)) (users s)";
        cases "find (\<lambda>u. ?P (username u)) (users s')")
      (auto simp: status_of_def post_login_def updateSession_def USERS_read_def
        SESSIONS_read_def SESSIONS_write_def flow_defs res_defs Let_def same_draws_def
        split: jsval.splits if_splits)
  show "hash_blind (store_of (post_login e rq s fresh_res))
           (store_of (post_login e' rq s' fresh_res))"
    using r assms
    by (cases "find (\<lambda>u. ?P (username u)) (users s)";
        cases "find (\<lambda>u. ?P (username u)) (users s')")
      (auto simp: status_of_def post_login_def updateSession_def USERS_read_def
        SESSIONS_read_def SESSIONS_write_def flow_defs res_defs Let_def hash_blind_def
        same_draws_def split: jsval.splits if_splits)
qed

lemma logout_blind:
  assumes "hash_blind s s'"
  shows "res_of (get_logout e' rq s' fresh_res) = res_of (get_logout e rq s fresh_res)"
    and "hash_blind (store_of (get_logout e rq s fresh_res))
           (store_of (get_logout e' rq s' fresh_res))"
  using assms checkSession_users_free [of s' s rq fresh_res]
  by (auto simp: hash_blind_def get_logout_def SESSIONS_read_def SESSIONS_write_def
      flow_defs res_defs Let_def split: sum.splits prod.splits)

lemma list_blind:
  assumes "hash_blind s s'"
  shows "res_of (get_timers e' rq s' fresh_res) = res_of (get_timers e rq s fresh_res)"
    and "hash_blind (store_of (get_timers e rq s fresh_res))
           (store_of (get_timers e' rq s' fresh_res))"
  using assms checkSession_users_free [of s' s rq fresh_res]
  by (auto simp: hash_blind_def get_timers_def TIMERS_read_def
      flow_defs res_defs Let_def split: sum.splits prod.splits)

lemma start_blind:
  assumes "hash_blind s s'" and "same_draws e e'"
  shows "res_of (post_timers e' rq s' fresh_res) = res_of (post_timers e rq s fresh_res)"
    and "hash_blind (store_of (post_timers e rq s fresh_res))
           (store_of (post_timers e' rq s' fresh_res))"
  using assms checkSession_users_free [of s' s rq fresh_res]
  by (auto simp: hash_blind_def same_draws_def post_timers_def TIMERS_read_def
      TIMERS_write_def flow_defs res_defs Let_def split: sum.splits prod.splits)

lemma stop_blind:
  assumes "hash_blind s s'" and "same_draws e e'"
  shows "res_of (post_timers_stop e' rq s' fresh_res) =
         res_of (post_timers_stop e rq s fresh_res)"
    and "hash_blind (store_of (post_timers_stop e rq s fresh_res))
           (store_of (post_timers_stop e' rq s' fresh_res))"
  using assms checkSession_users_free [of s' s rq fresh_res]
  by (auto simp: hash_blind_def same_draws_def post_timers_stop_def TIMERS_read_def
      TIMERS_write_def flow_defs res_defs Let_def
      split: sum.splits prod.splits option.splits)

lemma home_store: "store_of (get_home e rq s r) = s"
  by (simp add: get_home_def flow_defs res_defs Let_def split: sum.splits)

text \<open>The home page hands a stored User record to the template as it is.\<close>

lemma home_payload:
  "\<exists>uo a. payload_of (get_home e rq s fresh_res) = Some (View ''index'' uo a) \<and>
          (\<forall>usr. uo = Some usr \<longrightarrow> usr \<in> set (users s))"
  by (auto simp: payload_of_def get_home_def db_defs flow_defs res_defs Let_def
      split: option.splits dest: find_in_set find_in_set')

lemma home_payload_authenticated:
  assumes "authenticated s rq u" and "find (\<lambda>x. u_id x = u) (users s) = Some usr"
  shows "\<exists>a. payload_of (get_home e rq s fresh_res) = Some (View ''index'' (Some usr) a)"
proof -
  from assms(1) obtain sid where sid: "cookies_sessionId rq = Some sid" "sid \<noteq> []"
    "sessions s sid = Some \<lparr>session_userId = u\<rparr>"
    by (auto simp: authenticated_def split: option.splits)
  have "(\<lambda>x. Some (u_id x) = Some u) = (\<lambda>x. u_id x = u)" by auto
  with sid assms(2) show ?thesis
    by (simp add: payload_of_def get_home_def get_prop_def db_defs flow_defs res_defs)
qed

subsection \<open>Lists\<close>

lemma truthy_JStr_or_not:
  "truthy v \<Longrightarrow> (\<exists>p. v = JStr p \<and> p \<noteq> []) \<or> (\<forall>p. v \<noteq> JStr p)"
  by (cases v) auto

lemma to_json_finite: "v \<noteq> JInfinity \<Longrightarrow> v \<noteq> JNegInfinity \<Longrightarrow> to_json v = v"
  by (cases v) simp_all

lemma to_json_idem: "to_json (to_json v) = to_json v"
  by (cases v) simp_all

lemma json_users_stored: "json_users us \<Longrightarrow> map stored_user us = us"
  by (induction us) (simp_all add: json_users_def stored_user_def)

lemma json_users_map_stored: "json_users (map stored_user us)"
  by (induction us) (simp_all add: json_users_def stored_user_def to_json_idem)

lemma distinct_usernames_append:
  assumes "distinct (map username us)" and "v \<noteq> JObj"
    and "\<not> (\<exists>u\<in>set us. strict_eq (username u) v)"
  shows "distinct (map username (us @ [\<lparr>u_id = i, username = v, password = h\<rparr>]))"
  using assms by (auto simp: strict_eq_def)

lemma count_list_filter_fresh:
  "timer_id t \<notin> timer_id ` set ts \<Longrightarrow> count_list (filter P ts) t = 0"
  by (induction ts) auto

section \<open>The request gate (C1)\<close>

text \<open>
  C1. A protected operation whose request carries no session token must answer 401 and do
  nothing else. \<open>checkSession\<close> does answer 401, but what it returns to the handler is the
  response object, which is truthy, so the handler's \<open>if (!session) return;\<close> does not
  return and the body runs with \<open>session.userId\<close> undefined. Here the start route, called
  without a cookie on the empty store: the client gets 401, and yet a timer without
  \<open>userId\<close> is appended and the timer collection is written; the handler then tries to
  answer 201 and, in its \<open>catch\<close>, 400, and ends with the exception of the second attempt.
\<close>

theorem C1_unauthenticated_start_runs:
  "post_timers fresh_env (blank_req\<lparr>body_description := JStr ''x''\<rparr>) initial_store fresh_res =
   Uncaught
     (initial_store\<lparr>timers :=
        [\<lparr>timer_id = ''freshTimerIdentifier4'', start = 5000, description = JStr ''x'',
          isActive = True, userId = None, progress = 0, timer_end = None,
          duration = None\<rparr>],
        writes := [TIMERS]\<rparr>)
     \<lparr>statusCode = 400, cookies = [], sent = Some (401, Message ''Unauthorized'')\<rparr>
     ERR_HTTP_HEADERS_SENT"
  by (simp add: handler_defs res_defs db_defs flow_defs example_defs fresh_env_def Let_def)

text \<open>
  The same in general. A request without a token, or with one that is no property of the
  session object, is answered 401. After that, in any store, the start route appends
  the timer and writes, the logout route writes the sessions and fails to clear the
  cookie, and the list route tries to answer a second time.
\<close>

lemma checkSession_rejects:
  assumes "\<not> truthy_str (cookies_sessionId rq) \<or>
           get_prop (sessions s) (prop_key (cookies_sessionId rq)) = None"
  shows "checkSession rq s fresh_res = Inr (Response, unauthorized)"
  using assms
  by (auto simp: checkSession_def SESSIONS_read_def res_defs unauthorized_def Let_def)

lemma rejected_start_appends:
  assumes "checkSession rq s fresh_res = Inr (Response, unauthorized)"
    and "truthy (body_description rq)"
  shows "store_of (post_timers e rq s fresh_res) =
           s\<lparr>timers := timers s @
                [\<lparr>timer_id = nanoid_1 e, start = Date_now e,
                  description = to_json (body_description rq), isActive = True,
                  userId = None, progress = 0, timer_end = None, duration = None\<rparr>],
              writes := writes s @ [TIMERS]\<rparr>"
    and "sent (res_of (post_timers e rq s fresh_res)) = Some (401, Message ''Unauthorized'')"
  using assms
  by (simp_all add: post_timers_def db_defs flow_defs res_defs unauthorized_def Let_def)

lemma rejected_logout_writes:
  assumes "checkSession rq s fresh_res = Inr (Response, unauthorized)"
  shows "writes (store_of (get_logout e rq s fresh_res)) = writes s @ [SESSIONS]"
    and "uncaught (get_logout e rq s fresh_res) = Some ERR_HTTP_HEADERS_SENT"
  using assms
  by (simp_all add: get_logout_def db_defs flow_defs res_defs unauthorized_def Let_def)

lemma rejected_list_responds_again:
  assumes "checkSession rq s fresh_res = Inr (Response, unauthorized)"
  shows "uncaught (get_timers e rq s fresh_res) = Some ERR_HTTP_HEADERS_SENT"
  using assms
  by (simp add: get_timers_def db_defs flow_defs res_defs unauthorized_def Let_def)

section \<open>Password hashes in responses (C2)\<close>

text \<open>
  C2, as the code has it. Outside the home page no response holds a stored password hash.
  A response of signup or login, success or error, is one of seven payloads written out
  in the source (five messages, the message with the caught bcrypt exception, and the
  redirect to \<open>/\<close>), whatever the store holds. In two stores that differ at most in the
  password hashes of their users, and with whatever bcrypt computes, every operation but
  the home page and login gives the same response (status, cookies and payload), login
  gives the same response whenever it gives the same status (the hash decides between
  401 and 302 and nothing else), and what the operation leaves are again two stores that
  differ at most in password hashes:
  a hash is copied neither into a response nor into the timers, the sessions, or the id
  or username of a user, from where a later response could take it. Logout and the timer
  routes do not read the User collection at all. The home page is the exception: the
  payload it hands to \<open>res.render\<close> holds, whole, the stored User record of the session's
  user (\<open>user: user\<close>), and so its \<open>password\<close> field; it holds no other record of the
  collection.
\<close>

theorem C2_hash_only_in_home_render:
  "(rt = POST_signup \<or> rt = POST_login \<longrightarrow>
      payload_of (handle rt e rq s) \<in>
        {Some (Message ''Username and password are required''),
         Some (Message ''Username already taken''),
         Some (MessageError ''Error creating user'' Bcrypt_hash_error),
         Some (Message ''User not found''),
         Some (Message ''Incorrect password''),
         Some (MessageError ''Error during login'' Bcrypt_compare_error),
         Some (Redirect ''/'')})
   \<and> (hash_blind s s' \<and> same_draws e e' \<and> rt \<noteq> GET_home \<and> rt \<noteq> POST_login \<longrightarrow>
      res_of (handle rt e' rq s') = res_of (handle rt e rq s))
   \<and> (hash_blind s s' \<and> same_draws e e' \<and>
       status_of (handle POST_login e' rq s') = status_of (handle POST_login e rq s) \<longrightarrow>
      res_of (handle POST_login e' rq s') = res_of (handle POST_login e rq s))
   \<and> (hash_blind s s' \<and> same_draws e e' \<and>
       (rt = POST_login \<longrightarrow>
        status_of (handle POST_login e' rq s') = status_of (handle POST_login e rq s)) \<longrightarrow>
      hash_blind (store_of (handle rt e rq s)) (store_of (handle rt e' rq s')))
   \<and> ((rt = GET_logout \<or> rt = GET_timers \<or> rt = POST_timers \<or> rt = POST_timers_stop) \<and>
       sessions s' = sessions s \<and> timers s' = timers s \<longrightarrow>
      res_of (handle rt e rq s') = res_of (handle rt e rq s))
   \<and> (\<exists>uo a. payload_of (handle GET_home e rq s) = Some (View ''index'' uo a) \<and>
          (\<forall>usr. uo = Some usr \<longrightarrow> usr \<in> set (users s)))
   \<and> (authenticated s rq u \<and> find (\<lambda>x. u_id x = u) (users s) = Some usr \<longrightarrow>
      (\<exists>a. payload_of (handle GET_home e rq s) = Some (View ''index'' (Some usr) a)))"
proof (intro conjI impI)
  assume "rt = POST_signup \<or> rt = POST_login"
  then show "payload_of (handle rt e rq s) \<in>
        {Some (Message ''Username and password are required''),
         Some (Message ''Username already taken''),
         Some (MessageError ''Error creating user'' Bcrypt_hash_error),
         Some (Message ''User not found''),
         Some (Message ''Incorrect password''),
         Some (MessageError ''Error during login'' Bcrypt_compare_error),
         Some (Redirect ''/'')}"
    using signup_payload [of e rq s] login_payload [of e rq s] by auto
next
  assume a: "hash_blind s s' \<and> same_draws e e' \<and> rt \<noteq> GET_home \<and> rt \<noteq> POST_login"
  then have b: "hash_blind s s'" and d: "same_draws e e'" by simp_all
  from a show "res_of (handle rt e' rq s') = res_of (handle rt e rq s)"
    by (cases rt)
      (simp_all add: signup_blind(1) [OF b d] logout_blind(1) [OF b] list_blind(1) [OF b]
        start_blind(1) [OF b d] stop_blind(1) [OF b d])
next
  assume "hash_blind s s' \<and> same_draws e e' \<and>
       status_of (handle POST_login e' rq s') = status_of (handle POST_login e rq s)"
  then show "res_of (handle POST_login e' rq s') = res_of (handle POST_login e rq s)"
    using login_blind(1) [of s s' e e' rq] by simp
next
  assume a: "hash_blind s s' \<and> same_draws e e' \<and>
       (rt = POST_login \<longrightarrow>
        status_of (handle POST_login e' rq s') = status_of (handle POST_login e rq s))"
  then have b: "hash_blind s s'" and d: "same_draws e e'" by simp_all
  from a show "hash_blind (store_of (handle rt e rq s)) (store_of (handle rt e' rq s'))"
    using login_blind(2) [of s s' e e' rq]
    by (cases rt)
      (simp_all add: signup_blind(2) [OF b d] logout_blind(2) [OF b] list_blind(2) [OF b]
        start_blind(2) [OF b d] stop_blind(2) [OF b d] home_store)
next
  assume a: "(rt = GET_logout \<or> rt = GET_timers \<or> rt = POST_timers \<or> rt = POST_timers_stop) \<and>
       sessions s' = sessions s \<and> timers s' = timers s"
  then have eq: "sessions s' = sessions s" "timers s' = timers s" by simp_all
  from a show "res_of (handle rt e rq s') = res_of (handle rt e rq s)"
    using logout_users_free [OF eq(1)] list_users_free [OF eq] start_users_free [OF eq]
      stop_users_free [OF eq]
    by auto
next
  show "\<exists>uo a. payload_of (handle GET_home e rq s) = Some (View ''index'' uo a) \<and>
          (\<forall>usr. uo = Some usr \<longrightarrow> usr \<in> set (users s))"
    using home_payload [of e rq s] by simp
next
  assume "authenticated s rq u \<and> find (\<lambda>x. u_id x = u) (users s) = Some usr"
  then show "\<exists>a. payload_of (handle GET_home e rq s) = Some (View ''index'' (Some usr) a)"
    using home_payload_authenticated [of s rq u usr e] by simp
qed

text \<open>
  The theorem at a login of alice, at carol's signup and a login of bob on the example
  store and on the same store with another hash for alice, at a list request of alice on
  the example store and on the same store without its users, and at the home page with
  alice's cookie.
\<close>

theorem C2_hash_only_in_home_render_witness:
  "payload_of (handle POST_login login_env alice_signup example_store) = Some (Redirect ''/'')
   \<and> payload_of (handle POST_login login_env (alice_signup\<lparr>body_password := JStr ''no''\<rparr>)
        example_store) = Some (Message ''Incorrect password'')
   \<and> hash_blind example_store rehashed_store
   \<and> password (hd (users rehashed_store)) \<noteq> password (hd (users example_store))
   \<and> same_draws carol_env (other_bcrypt carol_env)
   \<and> bcrypt_hash (other_bcrypt carol_env) ''pw3'' \<noteq> bcrypt_hash carol_env ''pw3''
   \<and> res_of (handle POST_signup (other_bcrypt carol_env) carol_signup rehashed_store) =
       res_of (handle POST_signup carol_env carol_signup example_store)
   \<and> hash_blind (store_of (handle POST_signup carol_env carol_signup example_store))
        (store_of (handle POST_signup (other_bcrypt carol_env) carol_signup rehashed_store))
   \<and> same_draws login_env login_env
   \<and> status_of (handle POST_login login_env bob_login rehashed_store) = Some 302
   \<and> status_of (handle POST_login login_env bob_login example_store) = Some 302
   \<and> res_of (handle POST_login login_env bob_login rehashed_store) =
       res_of (handle POST_login login_env bob_login example_store)
   \<and> sessions (example_store\<lparr>users := []\<rparr>) = sessions example_store
   \<and> timers (example_store\<lparr>users := []\<rparr>) = timers example_store
   \<and> res_of (handle GET_timers login_env alice_req (example_store\<lparr>users := []\<rparr>)) =
       res_of (handle GET_timers login_env alice_req example_store)
   \<and> authenticated example_store alice_req ''V1StGXR8_Z5jdHi6B-myT''
   \<and> find (\<lambda>x. u_id x = ''V1StGXR8_Z5jdHi6B-myT'') (users example_store) = Some alice
   \<and> (\<exists>a. payload_of (handle GET_home login_env alice_req example_store) =
            Some (View ''index'' (Some alice) a))"
proof -
  let ?no = "alice_signup\<lparr>body_password := JStr ''no''\<rparr>"
  let ?s' = "example_store\<lparr>users := []\<rparr>"
  have l1: "payload_of (handle POST_login login_env alice_signup example_store) \<noteq>
              Some (Message ''Username and password are required'')"
    "payload_of (handle POST_login login_env alice_signup example_store) \<noteq>
              Some (Message ''Username already taken'')"
    "payload_of (handle POST_login login_env alice_signup example_store) \<noteq>
              Some (MessageError ''Error creating user'' Bcrypt_hash_error)"
    "payload_of (handle POST_login login_env alice_signup example_store) \<noteq>
              Some (Message ''User not found'')"
    "payload_of (handle POST_login login_env alice_signup example_store) \<noteq>
              Some (Message ''Incorrect password'')"
    "payload_of (handle POST_login login_env alice_signup example_store) \<noteq>
              Some (MessageError ''Error during login'' Bcrypt_compare_error)"
    by (simp_all add: payload_of_def handler_defs res_defs db_defs flow_defs example_defs
        alice_signup_def login_env_def Let_def strict_eq_def)
  have 1: "payload_of (handle POST_login login_env alice_signup example_store) =
             Some (Redirect ''/'')"
    using C2_hash_only_in_home_render [where rt = POST_login and e = login_env and
        rq = alice_signup and s = example_store] l1
    by simp
  have 2: "payload_of (handle POST_login login_env ?no example_store) =
             Some (Message ''Incorrect password'')"
    by (simp add: payload_of_def handler_defs res_defs db_defs flow_defs example_defs
        alice_signup_def login_env_def Let_def strict_eq_def)
  have hb: "hash_blind example_store rehashed_store"
    and other: "password (hd (users rehashed_store)) \<noteq> password (hd (users example_store))"
    by (simp_all add: hash_blind_def rehashed_store_def example_defs)
  have sd: "same_draws carol_env (other_bcrypt carol_env)" "same_draws login_env login_env"
    and oh: "bcrypt_hash (other_bcrypt carol_env) ''pw3'' \<noteq> bcrypt_hash carol_env ''pw3''"
    by (simp_all add: same_draws_def other_bcrypt_def carol_env_def env_with_def
        example_hash_def)
  have 3: "res_of (handle POST_signup (other_bcrypt carol_env) carol_signup rehashed_store) =
           res_of (handle POST_signup carol_env carol_signup example_store)"
    and 4: "hash_blind (store_of (handle POST_signup carol_env carol_signup example_store))
        (store_of (handle POST_signup (other_bcrypt carol_env) carol_signup rehashed_store))"
    using C2_hash_only_in_home_render [where rt = POST_signup and e = carol_env and
        e' = "other_bcrypt carol_env" and rq = carol_signup and s = example_store and
        s' = rehashed_store] hb sd(1)
    by simp_all
  have st: "status_of (handle POST_login login_env bob_login rehashed_store) = Some 302"
    "status_of (handle POST_login login_env bob_login example_store) = Some 302"
    by (simp_all add: status_of_def handler_defs res_defs db_defs flow_defs example_defs
        rehashed_store_def bob_login_def login_env_def Let_def strict_eq_def)
  have 5: "res_of (handle POST_login login_env bob_login rehashed_store) =
           res_of (handle POST_login login_env bob_login example_store)"
    using C2_hash_only_in_home_render [where e = login_env and e' = login_env and
        rq = bob_login and s = example_store and s' = rehashed_store] hb sd(2) st
    by simp
  have eq: "sessions ?s' = sessions example_store" "timers ?s' = timers example_store"
    by simp_all
  have 6: "res_of (handle GET_timers login_env alice_req ?s') =
           res_of (handle GET_timers login_env alice_req example_store)"
    using C2_hash_only_in_home_render [where rt = GET_timers and e = login_env and
        rq = alice_req and s = example_store and s' = ?s'] eq
    by simp
  have a: "authenticated example_store alice_req ''V1StGXR8_Z5jdHi6B-myT''"
    by (simp add: example_defs)
  have f: "find (\<lambda>x. u_id x = ''V1StGXR8_Z5jdHi6B-myT'') (users example_store) = Some alice"
    by (simp add: example_defs)
  have 7: "\<exists>a. payload_of (handle GET_home login_env alice_req example_store) =
            Some (View ''index'' (Some alice) a)"
    using C2_hash_only_in_home_render [where e = login_env and rq = alice_req and
        s = example_store and u = "''V1StGXR8_Z5jdHi6B-myT''" and usr = alice] a f
    by blast
  show ?thesis using 1 2 hb other sd oh 3 4 st 5 eq 6 a f 7 by blast
qed

text \<open>
  The claim as it was stated fails on the home page: after alice has signed up, the render
  context of \<open>GET /\<close> with her cookie is her User record with the hash.
\<close>

theorem C2_home_counterexample:
  "payload_of (handle GET_home (env_with [] [] 200) alice_req (run [alice_signup_op] initial_store))
     = Some (View ''index'' (Some alice) JUndefined)
   \<and> password alice = ''$2b$10$pw1''"
  by (simp add: payload_of_def handler_defs res_defs db_defs flow_defs example_defs alice_signup_def
      alice_signup_op_def
      Let_def strict_eq_def)

section \<open>A stopped timer (C3)\<close>

text \<open>
  C3, as the code has it. Whatever requests follow, a timer stays in the collection at its
  place, keeps its \<open>id\<close>, \<open>userId\<close>, \<open>description\<close>, \<open>start\<close> and \<open>progress\<close>, and once
  \<open>isActive\<close> is false it stays false. A request changes a stored timer only if it is a
  stop request that names the timer's id, and then the timer becomes \<open>stopped e t\<close>: the
  stop route does not test \<open>isActive\<close>, so stopping a stopped timer again overwrites its
  \<open>end\<close> and \<open>duration\<close> with values of the new current time.
\<close>

theorem C3_stopped_timer_kept:
  assumes "i < length (timers s)" and "\<not> isActive (timers s ! i)"
  shows "i < length (timers (run ops s))
       \<and> \<not> isActive (timers (run ops s) ! i)
       \<and> timer_id (timers (run ops s) ! i) = timer_id (timers s ! i)
       \<and> userId (timers (run ops s) ! i) = userId (timers s ! i)
       \<and> description (timers (run ops s) ! i) = description (timers s ! i)
       \<and> start (timers (run ops s) ! i) = start (timers s ! i)
       \<and> progress (timers (run ops s) ! i) = progress (timers s ! i)
       \<and> (timers (store_of (handle rt e rq s)) ! i = timers s ! i
          \<or> (rt = POST_timers_stop \<and> timer_id (timers s ! i) = params_id rq \<and>
              timers (store_of (handle rt e rq s)) ! i = stopped e (timers s ! i)))"
  using run_timer_at [OF assms(1), of ops] handle_timer_at [OF assms(1), of rt e rq] assms(2)
  by (auto simp: kept_def)

theorem C3_stopped_timer_kept_witness:
  "2 < length (timers example_store)
   \<and> \<not> isActive (timers example_store ! 2)
   \<and> \<not> isActive (timers (run [alice_stop_op 3000, alice_start_op] example_store) ! 2)
   \<and> timer_id (timers (run [alice_stop_op 3000, alice_start_op] example_store) ! 2) =
       timer_id (timers example_store ! 2)
   \<and> timers (store_of (handle POST_timers_stop (env_with [] [] 3000)
        (alice_req\<lparr>params_id := ''timerThreeIdentifier3''\<rparr>) example_store)) ! 2 =
       stopped (env_with [] [] 3000) timer_a2
   \<and> stopped (env_with [] [] 3000) timer_a2 \<noteq> timer_a2"
proof -
  have l: "2 < length (timers example_store)"
    and n: "\<not> isActive (timers example_store ! 2)"
    by (simp_all add: example_defs)
  have ch: "timers (store_of (handle POST_timers_stop (env_with [] [] 3000)
        (alice_req\<lparr>params_id := ''timerThreeIdentifier3''\<rparr>) example_store)) ! 2 \<noteq>
        timers example_store ! 2"
    by (simp add: handler_defs res_defs db_defs flow_defs example_defs Let_def)
  have t: "timers example_store ! 2 = timer_a2"
    by (simp add: example_store_def)
  have d: "stopped (env_with [] [] 3000) timer_a2 \<noteq> timer_a2"
    by (simp add: stopped_def timer_a2_def env_with_def)
  show ?thesis
    using l n ch t d
      C3_stopped_timer_kept [OF l n, of "[alice_stop_op 3000, alice_start_op]"
        POST_timers_stop "env_with [] [] 3000"
        "alice_req\<lparr>params_id := ''timerThreeIdentifier3''\<rparr>"]
    by simp
qed

text \<open>
  The claim as it was stated fails at the second stop: alice signs up, starts a timer at
  1000, stops it at 2000 and stops it again at 3000; \<open>end\<close> and \<open>duration\<close> of the stopped
  timer change from 2000 and 1000 to 3000 and 2000.
\<close>

theorem C3_second_stop_counterexample:
  "timers (run [alice_signup_op, alice_start_op, alice_stop_op 2000] initial_store) =
     [timer_a1\<lparr>isActive := False, timer_end := Some 2000, duration := Some 1000\<rparr>]
   \<and> timers (run [alice_signup_op, alice_start_op, alice_stop_op 2000, alice_stop_op 3000]
        initial_store) =
     [timer_a1\<lparr>isActive := False, timer_end := Some 3000, duration := Some 2000\<rparr>]"
  by (simp add: handler_defs res_defs db_defs flow_defs example_defs alice_signup_def
      alice_signup_op_def alice_start_op_def alice_stop_op_def
      Let_def strict_eq_def)

section \<open>Stopping a timer (C4, C5)\<close>

text \<open>
  C4. For an authenticated user \<open>u\<close> and a timer id: if no timer has that id, or every timer
  that has it belongs to someone else, the stop route answers 403 \<open>Access denied\<close>, the same
  in both cases, and the store is the one it was given: no collection is changed and
  nothing is written (the log of writes is a field of the store).
\<close>

theorem C4_stop_forbidden:
  assumes "authenticated s rq u"
    and "(\<forall>t\<in>set (timers s). timer_id t \<noteq> params_id rq) \<or>
         (\<forall>t\<in>set (timers s). timer_id t = params_id rq \<longrightarrow> userId t \<noteq> Some u)"
  shows "post_timers_stop e rq s fresh_res =
         Done s \<lparr>statusCode = 403, cookies = [], sent = Some (403, Text ''Access denied'')\<rparr>"
proof -
  from assms(2)
  have "findIndex (\<lambda>t. timer_id t = params_id rq \<and> userId t = Some u) (timers s) = None"
    unfolding findIndex_None by blast
  then show ?thesis
    using checkSession_authenticated [OF assms(1)]
    by (simp add: post_timers_stop_def TIMERS_read_def finish_def res_send_def res_end_def
        res_status_def fresh_res_def)
qed

text \<open>
  The theorem at two requests of alice: one names a timer of bob, one a timer that does
  not exist.
\<close>

theorem C4_stop_forbidden_witness:
  "authenticated example_store (alice_req\<lparr>params_id := ''timerTwoIdentifierBB2''\<rparr>)
     ''V1StGXR8_Z5jdHi6B-myT''
   \<and> timer_b1 \<in> set (timers example_store)
   \<and> timer_id timer_b1 = ''timerTwoIdentifierBB2''
   \<and> post_timers_stop (env_with [] [] 3000)
        (alice_req\<lparr>params_id := ''timerTwoIdentifierBB2''\<rparr>) example_store fresh_res =
      Done example_store
        \<lparr>statusCode = 403, cookies = [], sent = Some (403, Text ''Access denied'')\<rparr>
   \<and> authenticated example_store (alice_req\<lparr>params_id := ''noSuchTimer''\<rparr>)
     ''V1StGXR8_Z5jdHi6B-myT''
   \<and> post_timers_stop (env_with [] [] 3000)
        (alice_req\<lparr>params_id := ''noSuchTimer''\<rparr>) example_store fresh_res =
      Done example_store
        \<lparr>statusCode = 403, cookies = [], sent = Some (403, Text ''Access denied'')\<rparr>"
proof -
  have a1: "authenticated example_store (alice_req\<lparr>params_id := ''timerTwoIdentifierBB2''\<rparr>)
     ''V1StGXR8_Z5jdHi6B-myT''"
    by (simp add: example_defs)
  have a2: "authenticated example_store (alice_req\<lparr>params_id := ''noSuchTimer''\<rparr>)
     ''V1StGXR8_Z5jdHi6B-myT''"
    by (simp add: example_defs)
  have h1: "(\<forall>t\<in>set (timers example_store).
               timer_id t \<noteq> params_id (alice_req\<lparr>params_id := ''timerTwoIdentifierBB2''\<rparr>)) \<or>
            (\<forall>t\<in>set (timers example_store).
               timer_id t = params_id (alice_req\<lparr>params_id := ''timerTwoIdentifierBB2''\<rparr>) \<longrightarrow>
               userId t \<noteq> Some ''V1StGXR8_Z5jdHi6B-myT'')"
    by (simp add: example_defs)
  have h2: "(\<forall>t\<in>set (timers example_store).
               timer_id t \<noteq> params_id (alice_req\<lparr>params_id := ''noSuchTimer''\<rparr>)) \<or>
            (\<forall>t\<in>set (timers example_store).
               timer_id t = params_id (alice_req\<lparr>params_id := ''noSuchTimer''\<rparr>) \<longrightarrow>
               userId t \<noteq> Some ''V1StGXR8_Z5jdHi6B-myT'')"
    by (simp add: example_defs)
  have m: "timer_b1 \<in> set (timers example_store)"
    "timer_id timer_b1 = ''timerTwoIdentifierBB2''"
    by (simp_all add: example_defs)
  show ?thesis
    using a1 a2 m C4_stop_forbidden [OF a1 h1] C4_stop_forbidden [OF a2 h2] by simp
qed

text \<open>
  C5. For an authenticated user \<open>u\<close> and the id of an active timer of \<open>u\<close>, the stop route
  sets \<open>isActive\<close> to false, \<open>end\<close> to the current time and \<open>duration\<close> to \<open>end - start\<close> on
  that timer, writes the timer collection once and answers 200 with the updated timer.
  The record update leaves \<open>id\<close>, \<open>userId\<close>, \<open>description\<close>, \<open>start\<close> and \<open>progress\<close> as they
  were, the list update leaves every other timer as it was, and users and sessions are
  untouched. The timer is the first one in storage order with that id and owner, which
  is the only one when ids are unique.
\<close>

theorem C5_stop_success:
  assumes "authenticated s rq u"
    and "i < length (timers s)"
    and "timer_id (timers s ! i) = params_id rq"
    and "userId (timers s ! i) = Some u"
    and "isActive (timers s ! i)"
    and "\<forall>j<i. \<not> (timer_id (timers s ! j) = params_id rq \<and> userId (timers s ! j) = Some u)"
  shows "post_timers_stop e rq s fresh_res =
         Done (s\<lparr>timers := (timers s)[i := (timers s ! i)\<lparr>isActive := False,
                    timer_end := Some (Date_now e),
                    duration := Some (Date_now e - start (timers s ! i))\<rparr>],
                  writes := writes s @ [TIMERS]\<rparr>)
              \<lparr>statusCode = 200, cookies = [],
                 sent = Some (200, TimerJson ((timers s ! i)\<lparr>isActive := False,
                    timer_end := Some (Date_now e),
                    duration := Some (Date_now e - start (timers s ! i))\<rparr>))\<rparr>"
proof -
  have "findIndex (\<lambda>t. timer_id t = params_id rq \<and> userId t = Some u) (timers s) = Some i"
    unfolding findIndex_Some using assms(2-4,6) by blast
  then show ?thesis
    using checkSession_authenticated [OF assms(1)]
    by (simp add: post_timers_stop_def TIMERS_read_def TIMERS_write_def respond_json_def
        finish_def res_json_def res_end_def res_status_def fresh_res_def Let_def)
qed

theorem C5_stop_success_witness:
  "authenticated example_store (alice_req\<lparr>params_id := ''timerOneIdentifierAA1''\<rparr>)
     ''V1StGXR8_Z5jdHi6B-myT''
   \<and> timers example_store ! 0 = timer_a1
   \<and> isActive timer_a1
   \<and> post_timers_stop (env_with [] [] 3000)
        (alice_req\<lparr>params_id := ''timerOneIdentifierAA1''\<rparr>) example_store fresh_res =
      Done (example_store\<lparr>timers :=
              [timer_a1\<lparr>isActive := False, timer_end := Some 3000, duration := Some 2000\<rparr>,
               timer_b1, timer_a2],
              writes := [TIMERS]\<rparr>)
        \<lparr>statusCode = 200, cookies = [],
           sent = Some (200, TimerJson
             (timer_a1\<lparr>isActive := False, timer_end := Some 3000, duration := Some 2000\<rparr>))\<rparr>"
proof -
  let ?rq = "alice_req\<lparr>params_id := ''timerOneIdentifierAA1''\<rparr>"
  have a: "authenticated example_store ?rq ''V1StGXR8_Z5jdHi6B-myT''"
    by (simp add: example_defs)
  have l: "0 < length (timers example_store)"
    by (simp add: example_defs)
  have i: "timer_id (timers example_store ! 0) = params_id ?rq"
    by (simp add: example_defs)
  have o: "userId (timers example_store ! 0) = Some ''V1StGXR8_Z5jdHi6B-myT''"
    by (simp add: example_defs)
  have act: "isActive (timers example_store ! 0)"
    by (simp add: example_defs)
  have f: "\<forall>j<0. \<not> (timer_id (timers example_store ! j) = params_id ?rq \<and>
             userId (timers example_store ! j) = Some ''V1StGXR8_Z5jdHi6B-myT'')"
    by simp
  have t0: "timers example_store ! 0 = timer_a1" "timers example_store = [timer_a1, timer_b1, timer_a2]"
    "writes example_store = []" "start timer_a1 = 1000" "isActive timer_a1"
    by (simp_all add: example_store_def timer_a1_def)
  show ?thesis
    using a C5_stop_success [OF a l i o act f, of "env_with [] [] 3000"]
    by (simp add: t0 env_with_def)
qed

section \<open>Listing timers (C6)\<close>

text \<open>
  C6. For an authenticated user \<open>u\<close> and the boolean \<open>b\<close> the query stands for, the list
  route answers with the timers of the stored collection whose \<open>userId\<close> is \<open>u\<close> and whose
  \<open>isActive\<close> is \<open>b\<close>, in storage order (\<open>filter\<close> keeps the order of the list), and every
  timer it returns belongs to \<open>u\<close>. Nothing is written.
\<close>

theorem C6_list:
  assumes "authenticated s rq u"
    and "b = (query_isActive rq = JStr ''true'')"
  shows "get_timers e rq s fresh_res =
         Done s \<lparr>statusCode = 200, cookies = [],
                 sent = Some (200, TimersJson
                   (filter (\<lambda>t. userId t = Some u \<and> isActive t = b) (timers s)))\<rparr>
       \<and> (\<forall>t\<in>set (filter (\<lambda>t. userId t = Some u \<and> isActive t = b) (timers s)).
            userId t = Some u)"
proof -
  have "filter (\<lambda>t. isActive t = (query_isActive rq = JStr ''true'') \<and> userId t = Some u)
          (timers s) =
        filter (\<lambda>t. userId t = Some u \<and> isActive t = b) (timers s)"
    using assms(2) by (auto intro: filter_cong)
  then show ?thesis
    using list_authenticated [OF assms(1), of e] by simp
qed

theorem C6_list_witness:
  "authenticated example_store (alice_req\<lparr>query_isActive := JStr ''true''\<rparr>)
     ''V1StGXR8_Z5jdHi6B-myT''
   \<and> get_timers (env_with [] [] 3000) (alice_req\<lparr>query_isActive := JStr ''true''\<rparr>)
        example_store fresh_res =
      Done example_store
        \<lparr>statusCode = 200, cookies = [], sent = Some (200, TimersJson [timer_a1])\<rparr>
   \<and> authenticated example_store (alice_req\<lparr>query_isActive := JStr ''false''\<rparr>)
     ''V1StGXR8_Z5jdHi6B-myT''
   \<and> get_timers (env_with [] [] 3000) (alice_req\<lparr>query_isActive := JStr ''false''\<rparr>)
        example_store fresh_res =
      Done example_store
        \<lparr>statusCode = 200, cookies = [], sent = Some (200, TimersJson [timer_a2])\<rparr>"
proof -
  let ?rT = "alice_req\<lparr>query_isActive := JStr ''true''\<rparr>"
  let ?rF = "alice_req\<lparr>query_isActive := JStr ''false''\<rparr>"
  have aT: "authenticated example_store ?rT ''V1StGXR8_Z5jdHi6B-myT''"
    and aF: "authenticated example_store ?rF ''V1StGXR8_Z5jdHi6B-myT''"
    by (simp_all add: example_defs)
  have bT: "True = (query_isActive ?rT = JStr ''true'')"
    and bF: "False = (query_isActive ?rF = JStr ''true'')"
    by simp_all
  have fT: "filter (\<lambda>t. userId t = Some ''V1StGXR8_Z5jdHi6B-myT'' \<and> isActive t = True)
              (timers example_store) = [timer_a1]"
    and fF: "filter (\<lambda>t. userId t = Some ''V1StGXR8_Z5jdHi6B-myT'' \<and> isActive t = False)
              (timers example_store) = [timer_a2]"
    by (simp_all add: example_store_def timer_a1_def timer_b1_def timer_a2_def)
  show ?thesis
    using aT aF C6_list [OF aT bT, of "env_with [] [] 3000"]
      C6_list [OF aF bF, of "env_with [] [] 3000"]
    unfolding fT fF by simp
qed

section \<open>Sessions from signup and login (C7)\<close>

text \<open>
  C7. The session id that signup or login puts into the cookie resolves, in the store the
  handler leaves, to a session whose \<open>userId\<close> is the id of the user just created (signup)
  or of the user found by the username (login). After a logout with that cookie the same
  id no longer resolves: \<open>checkSession\<close> answers 401. The id is what \<open>nanoid()\<close> returned,
  a string of 21 characters. The user just created is the last of the collection, with
  the id \<open>nanoid()\<close> returned first and the username of the request as JSON stores it.
\<close>

theorem C7_session_resolves_until_revoked:
  assumes "length sid = 21" and "cookies_sessionId rq' = Some sid"
  shows "(truthy (body_username rq) \<and> body_password rq = JStr p \<and> p \<noteq> [] \<and>
          \<not> (\<exists>x\<in>set (users s). strict_eq (username x) (body_username rq)) \<and>
          nanoid_2 e = sid \<longrightarrow>
            cookies (res_of (post_signup e rq s fresh_res)) = [(''sessionId'', Some sid)]
          \<and> u_id (last (users (store_of (post_signup e rq s fresh_res)))) = nanoid_1 e
          \<and> username (last (users (store_of (post_signup e rq s fresh_res)))) =
              to_json (body_username rq)
          \<and> checkSession rq' (store_of (post_signup e rq s fresh_res)) fresh_res =
              Inr (Session \<lparr>session_userId = nanoid_1 e\<rparr>, fresh_res)
          \<and> checkSession rq'
               (store_of (get_logout e' rq' (store_of (post_signup e rq s fresh_res)) fresh_res))
               fresh_res = Inr (Response, unauthorized))
       \<and> (truthy (body_username rq) \<and> body_password rq = JStr p \<and> p \<noteq> [] \<and>
          find (\<lambda>x. strict_eq (username x) (body_username rq)) (users s) = Some usr \<and>
          bcrypt_compare e p (password usr) \<and> nanoid_1 e = sid \<longrightarrow>
            cookies (res_of (post_login e rq s fresh_res)) = [(''sessionId'', Some sid)]
          \<and> checkSession rq' (store_of (post_login e rq s fresh_res)) fresh_res =
              Inr (Session \<lparr>session_userId = u_id usr\<rparr>, fresh_res)
          \<and> checkSession rq'
               (store_of (get_logout e' rq' (store_of (post_login e rq s fresh_res)) fresh_res))
               fresh_res = Inr (Response, unauthorized))"
proof (intro conjI impI)
  assume a: "truthy (body_username rq) \<and> body_password rq = JStr p \<and> p \<noteq> [] \<and>
          \<not> (\<exists>x\<in>set (users s). strict_eq (username x) (body_username rq)) \<and>
          nanoid_2 e = sid"
  let ?s1 = "store_of (post_signup e rq s fresh_res)"
  from a have out: "post_signup e rq s fresh_res =
         Done (s\<lparr>users := map stored_user (users s) @
                    [\<lparr>u_id = nanoid_1 e, username = to_json (body_username rq),
                      password = bcrypt_hash e p\<rparr>],
                  sessions := (sessions s)(sid \<mapsto> \<lparr>session_userId = nanoid_1 e\<rparr>),
                  writes := writes s @ [USERS, SESSIONS]\<rparr>)
              \<lparr>statusCode = 302, cookies = [(''sessionId'', Some sid)],
                 sent = Some (302, Redirect ''/'')\<rparr>"
    using signup_302 [of rq p s e] by auto
  then have bound: "sessions ?s1 sid = Some \<lparr>session_userId = nanoid_1 e\<rparr>" by simp
  show "cookies (res_of (post_signup e rq s fresh_res)) = [(''sessionId'', Some sid)]"
    and "u_id (last (users ?s1)) = nanoid_1 e"
    and "username (last (users ?s1)) = to_json (body_username rq)"
    using out by simp_all
  show "checkSession rq' ?s1 fresh_res = Inr (Session \<lparr>session_userId = nanoid_1 e\<rparr>, fresh_res)"
    and "checkSession rq' (store_of (get_logout e' rq' ?s1 fresh_res)) fresh_res =
           Inr (Response, unauthorized)"
    using resolve_then_revoke [OF assms(2) assms(1) bound, of e'] by simp_all
next
  assume a: "truthy (body_username rq) \<and> body_password rq = JStr p \<and> p \<noteq> [] \<and>
          find (\<lambda>x. strict_eq (username x) (body_username rq)) (users s) = Some usr \<and>
          bcrypt_compare e p (password usr) \<and> nanoid_1 e = sid"
  let ?s1 = "store_of (post_login e rq s fresh_res)"
  from a have out: "post_login e rq s fresh_res =
         Done (s\<lparr>sessions := (sessions s)(sid \<mapsto> \<lparr>session_userId = u_id usr\<rparr>),
                  writes := writes s @ [SESSIONS]\<rparr>)
              \<lparr>statusCode = 302, cookies = [(''sessionId'', Some sid)],
                 sent = Some (302, Redirect ''/'')\<rparr>"
    using login_302 [of rq p s usr e] by auto
  then have bound: "sessions ?s1 sid = Some \<lparr>session_userId = u_id usr\<rparr>" by simp
  show "cookies (res_of (post_login e rq s fresh_res)) = [(''sessionId'', Some sid)]"
    using out by simp
  show "checkSession rq' ?s1 fresh_res = Inr (Session \<lparr>session_userId = u_id usr\<rparr>, fresh_res)"
    and "checkSession rq' (store_of (get_logout e' rq' ?s1 fresh_res)) fresh_res =
           Inr (Response, unauthorized)"
    using resolve_then_revoke [OF assms(2) assms(1) bound, of e'] by simp_all
qed

text \<open>The theorem at carol's signup and at a second login of alice.\<close>

theorem C7_session_resolves_until_revoked_witness:
  "length ''carolSessionTokenCCC3'' = 21
   \<and> truthy (body_username carol_signup) \<and> body_password carol_signup = JStr ''pw3''
   \<and> nanoid_2 carol_env = ''carolSessionTokenCCC3''
   \<and> nanoid_1 carol_env = ''carolUserIdentifierC3''
   \<and> cookies (res_of (post_signup carol_env carol_signup example_store fresh_res)) =
       [(''sessionId'', Some ''carolSessionTokenCCC3'')]
   \<and> checkSession (blank_req\<lparr>cookies_sessionId := Some ''carolSessionTokenCCC3''\<rparr>)
        (store_of (post_signup carol_env carol_signup example_store fresh_res)) fresh_res =
       Inr (Session \<lparr>session_userId = ''carolUserIdentifierC3''\<rparr>, fresh_res)
   \<and> checkSession (blank_req\<lparr>cookies_sessionId := Some ''carolSessionTokenCCC3''\<rparr>)
        (store_of (get_logout login_env
           (blank_req\<lparr>cookies_sessionId := Some ''carolSessionTokenCCC3''\<rparr>)
           (store_of (post_signup carol_env carol_signup example_store fresh_res)) fresh_res))
        fresh_res = Inr (Response, unauthorized)
   \<and> length ''aliceSecondSessionXX2'' = 21
   \<and> find (\<lambda>x. strict_eq (username x) (body_username alice_signup)) (users example_store) =
       Some alice
   \<and> bcrypt_compare login_env ''pw1'' (password alice)
   \<and> nanoid_1 login_env = ''aliceSecondSessionXX2''
   \<and> cookies (res_of (post_login login_env alice_signup example_store fresh_res)) =
       [(''sessionId'', Some ''aliceSecondSessionXX2'')]
   \<and> checkSession (blank_req\<lparr>cookies_sessionId := Some ''aliceSecondSessionXX2''\<rparr>)
        (store_of (post_login login_env alice_signup example_store fresh_res)) fresh_res =
       Inr (Session \<lparr>session_userId = u_id alice\<rparr>, fresh_res)
   \<and> checkSession (blank_req\<lparr>cookies_sessionId := Some ''aliceSecondSessionXX2''\<rparr>)
        (store_of (get_logout login_env
           (blank_req\<lparr>cookies_sessionId := Some ''aliceSecondSessionXX2''\<rparr>)
           (store_of (post_login login_env alice_signup example_store fresh_res)) fresh_res))
        fresh_res = Inr (Response, unauthorized)"
proof -
  let ?c = "blank_req\<lparr>cookies_sessionId := Some ''carolSessionTokenCCC3''\<rparr>"
  let ?a = "blank_req\<lparr>cookies_sessionId := Some ''aliceSecondSessionXX2''\<rparr>"
  have lc: "length ''carolSessionTokenCCC3'' = 21"
    and la: "length ''aliceSecondSessionXX2'' = 21" by simp_all
  have cc: "cookies_sessionId ?c = Some ''carolSessionTokenCCC3''"
    and ca: "cookies_sessionId ?a = Some ''aliceSecondSessionXX2''" by simp_all
  have hs: "truthy (body_username carol_signup)" "body_password carol_signup = JStr ''pw3''"
    "''pw3'' \<noteq> []"
    "\<not> (\<exists>x\<in>set (users example_store). strict_eq (username x) (body_username carol_signup))"
    "nanoid_2 carol_env = ''carolSessionTokenCCC3''"
    "nanoid_1 carol_env = ''carolUserIdentifierC3''"
    by (simp_all add: example_defs carol_signup_def carol_env_def strict_eq_def)
  have hl: "truthy (body_username alice_signup)" "body_password alice_signup = JStr ''pw1''"
    "''pw1'' \<noteq> []"
    "find (\<lambda>x. strict_eq (username x) (body_username alice_signup)) (users example_store) =
       Some alice"
    "bcrypt_compare login_env ''pw1'' (password alice)"
    "nanoid_1 login_env = ''aliceSecondSessionXX2''"
    by (simp_all add: example_defs alice_signup_def strict_eq_def login_env_def)
  note s = C7_session_resolves_until_revoked [OF lc cc, of carol_signup "''pw3''"
      example_store carol_env login_env alice, THEN conjunct1, rule_format]
  note l = C7_session_resolves_until_revoked [OF la ca, of alice_signup "''pw1''"
      example_store login_env login_env alice, THEN conjunct2, rule_format]
  show ?thesis
    using lc la hs hl s l by simp
qed

section \<open>Signup (C8)\<close>

text \<open>
  Every collection of users the program leaves holds what JSON holds.
\<close>

lemma json_users_snoc: "json_users (map stored_user us @ [stored_user u])"
  using json_users_map_stored [of "us @ [u]"] by simp

lemma users_handle:
  "users (store_of (handle rt e rq s)) = users s \<or>
   json_users (users (store_of (handle rt e rq s)))"
proof (cases rt)
  case POST_signup
  then show ?thesis
    by (simp add: post_signup_def updateSession_def USERS_read_def USERS_write_def
        SESSIONS_read_def SESSIONS_write_def flow_defs res_defs Let_def json_users_snoc
        split: option.splits jsval.splits)
next
  case POST_login
  then show ?thesis
    by (simp add: post_login_def updateSession_def USERS_read_def SESSIONS_read_def
        SESSIONS_write_def flow_defs res_defs Let_def split: option.splits jsval.splits)
next
  case GET_logout
  then show ?thesis
    by (simp add: get_logout_def checkSession_def SESSIONS_read_def SESSIONS_write_def
        flow_defs res_defs Let_def split: option.splits sum.splits prod.splits)
next
  case GET_home
  then show ?thesis
    by (simp add: get_home_def db_defs flow_defs res_defs Let_def split: option.splits)
next
  case GET_timers
  then show ?thesis
    by (simp add: get_timers_def checkSession_def SESSIONS_read_def TIMERS_read_def
        flow_defs res_defs Let_def split: option.splits sum.splits prod.splits)
next
  case POST_timers
  then show ?thesis
    by (simp add: post_timers_def checkSession_def SESSIONS_read_def TIMERS_read_def
        TIMERS_write_def flow_defs res_defs Let_def
        split: option.splits sum.splits prod.splits)
next
  case POST_timers_stop
  then show ?thesis
    by (simp add: post_timers_stop_def checkSession_def SESSIONS_read_def TIMERS_read_def
        TIMERS_write_def flow_defs res_defs Let_def
        split: option.splits sum.splits prod.splits)
qed

lemma json_users_handle:
  "json_users (users s) \<Longrightarrow> json_users (users (store_of (handle rt e rq s)))"
  using users_handle [of rt e rq s] by auto

lemma json_users_run: "json_users (users s) \<Longrightarrow> json_users (users (run ops s))"
proof (induction ops arbitrary: s)
  case Nil
  then show ?case by simp
next
  case (Cons op ops)
  obtain rt e rq where op: "op = (rt, e, rq)" by (cases op)
  from Cons.IH [OF json_users_handle [OF Cons.prems, of rt e rq]] show ?case
    by (simp add: op)
qed

lemma json_users_reachable: "json_users (users (run ops initial_store))"
  by (rule json_users_run) (simp add: json_users_def initial_store_def)

text \<open>
  C8, as the code has it. Signup answers 400 exactly when \<open>username\<close> or \<open>password\<close> is
  falsy (absent, or the empty string; also \<open>null\<close>, \<open>false\<close> and \<open>0\<close>), and 409 exactly when
  both are truthy and a stored user has that very username (\<open>===\<close>, so with case). The
  first test comes first: with a taken username and an empty password the answer is 400.
  In both failures the store is returned as it was. Signup succeeds (302, with the
  cookie) exactly when the username is truthy and free and the password is a non-empty
  string; then the users are written with the new User at the end, each as JSON stores
  it, so that in a store that holds what JSON holds the users before it are unchanged.
  Usernames that were distinct are distinct afterwards when the new username is stored
  as it was sent and \<open>===\<close> compares it by value: a string, a finite number or \<open>true\<close>, not a
  number beyond the range of a double (stored as \<open>null\<close>) and not an object or array.
\<close>

theorem C8_signup_amended:
  "(status_of (post_signup e rq s fresh_res) = Some 400 \<longleftrightarrow>
      \<not> truthy (body_username rq) \<or> \<not> truthy (body_password rq))
   \<and> (status_of (post_signup e rq s fresh_res) = Some 409 \<longleftrightarrow>
      truthy (body_username rq) \<and> truthy (body_password rq) \<and>
      (\<exists>u\<in>set (users s). strict_eq (username u) (body_username rq)))
   \<and> (status_of (post_signup e rq s fresh_res) = Some 400 \<or>
       status_of (post_signup e rq s fresh_res) = Some 409 \<longrightarrow>
      store_of (post_signup e rq s fresh_res) = s)
   \<and> (status_of (post_signup e rq s fresh_res) = Some 302 \<longleftrightarrow>
      truthy (body_username rq) \<and> (\<exists>p. body_password rq = JStr p \<and> p \<noteq> []) \<and>
      \<not> (\<exists>u\<in>set (users s). strict_eq (username u) (body_username rq)))
   \<and> (status_of (post_signup e rq s fresh_res) = Some 302 \<longrightarrow>
      (\<exists>p. body_password rq = JStr p \<and>
           users (store_of (post_signup e rq s fresh_res)) =
           map stored_user (users s) @
             [\<lparr>u_id = nanoid_1 e, username = to_json (body_username rq),
               password = bcrypt_hash e p\<rparr>]))
   \<and> (status_of (post_signup e rq s fresh_res) = Some 302 \<and> json_users (users s) \<longrightarrow>
      (\<exists>p. body_password rq = JStr p \<and>
           users (store_of (post_signup e rq s fresh_res)) =
           users s @
             [\<lparr>u_id = nanoid_1 e, username = to_json (body_username rq),
               password = bcrypt_hash e p\<rparr>]))
   \<and> (status_of (post_signup e rq s fresh_res) = Some 302 \<and> json_users (users s) \<and>
       distinct (map username (users s)) \<and>
       body_username rq \<noteq> JInfinity \<and> body_username rq \<noteq> JNegInfinity \<and>
       body_username rq \<noteq> JObj \<longrightarrow>
      distinct (map username (users (store_of (post_signup e rq s fresh_res)))))"
proof -
  let ?out = "post_signup e rq s fresh_res"
  let ?taken = "\<exists>u\<in>set (users s). strict_eq (username u) (body_username rq)"
  consider (invalid) "\<not> truthy (body_username rq) \<or> \<not> truthy (body_password rq)"
    | (taken) "truthy (body_username rq)" "truthy (body_password rq)" ?taken
    | (ok) p where "truthy (body_username rq)" "body_password rq = JStr p" "p \<noteq> []" "\<not> ?taken"
    | (nostring) "truthy (body_username rq)" "truthy (body_password rq)"
        "\<forall>p. body_password rq \<noteq> JStr p" "\<not> ?taken"
    using truthy_JStr_or_not [of "body_password rq"] by blast
  then show ?thesis
  proof cases
    case invalid
    from signup_400 [OF invalid, of e s] invalid show ?thesis
      by (auto simp: status_of_def)
  next
    case taken
    from signup_409 [OF taken, of e] taken show ?thesis
      by (auto simp: status_of_def)
  next
    case ok
    let ?new = "\<lparr>u_id = nanoid_1 e, username = to_json (body_username rq),
                 password = bcrypt_hash e p\<rparr>"
    have st: "status_of ?out = Some 302"
      and us: "users (store_of ?out) = map stored_user (users s) @ [?new]"
      using signup_302 [OF ok, of e] by (simp_all add: status_of_def)
    have kept: "json_users (users s) \<longrightarrow> users (store_of ?out) = users s @ [?new]"
      using us by (simp add: json_users_stored)
    have d: "json_users (users s) \<and> distinct (map username (users s)) \<and>
          body_username rq \<noteq> JInfinity \<and> body_username rq \<noteq> JNegInfinity \<and>
          body_username rq \<noteq> JObj \<longrightarrow> distinct (map username (users (store_of ?out)))"
    proof
      assume h: "json_users (users s) \<and> distinct (map username (users s)) \<and>
          body_username rq \<noteq> JInfinity \<and> body_username rq \<noteq> JNegInfinity \<and>
          body_username rq \<noteq> JObj"
      then have same: "to_json (body_username rq) = body_username rq"
        by (simp add: to_json_finite)
      from h kept have "users (store_of ?out) = users s @ [?new]" by simp
      with h same distinct_usernames_append [OF _ _ ok(4), of "nanoid_1 e" "bcrypt_hash e p"]
      show "distinct (map username (users (store_of ?out)))" by simp
    qed
    from st us kept d ok show ?thesis by simp
  next
    case nostring
    from signup_500 [OF nostring, of e] nostring show ?thesis
      by (auto simp: status_of_def)
  qed
qed

text \<open>The theorem at carol's signup, at a taken username and at an empty request.\<close>

theorem C8_signup_amended_witness:
  "truthy (body_username carol_signup)
   \<and> body_password carol_signup = JStr ''pw3''
   \<and> json_users (users example_store)
   \<and> distinct (map username (users example_store))
   \<and> status_of (post_signup carol_env carol_signup example_store fresh_res) = Some 302
   \<and> users (store_of (post_signup carol_env carol_signup example_store fresh_res)) =
       [alice, bob, carol]
   \<and> distinct (map username
        (users (store_of (post_signup carol_env carol_signup example_store fresh_res))))
   \<and> status_of (post_signup carol_env alice_signup example_store fresh_res) = Some 409
   \<and> store_of (post_signup carol_env alice_signup example_store fresh_res) = example_store
   \<and> status_of (post_signup carol_env blank_req example_store fresh_res) = Some 400
   \<and> store_of (post_signup carol_env blank_req example_store fresh_res) = example_store"
proof -
  have c: "truthy (body_username carol_signup)" "body_password carol_signup = JStr ''pw3''"
    "\<not> (\<exists>u\<in>set (users example_store). strict_eq (username u) (body_username carol_signup))"
    "body_username carol_signup = JStr ''carol''"
    by (simp_all add: example_defs carol_signup_def strict_eq_def)
  have j: "json_users (users example_store)"
    by (simp add: json_users_def example_defs)
  have d: "distinct (map username (users example_store))"
    by (simp add: example_defs)
  have a: "truthy (body_username alice_signup)" "truthy (body_password alice_signup)"
    "\<exists>u\<in>set (users example_store). strict_eq (username u) (body_username alice_signup)"
    by (simp_all add: example_defs alice_signup_def strict_eq_def)
  have b: "\<not> truthy (body_username blank_req)"
    by (simp add: blank_req_def)
  have u: "users example_store = [alice, bob]"
    "carol = \<lparr>u_id = nanoid_1 carol_env, username = JStr ''carol'',
              password = bcrypt_hash carol_env ''pw3''\<rparr>"
    by (simp_all add: example_store_def carol_def carol_env_def env_with_def example_hash_def)
  from C8_signup_amended [of carol_env carol_signup example_store] c
  have 1: "status_of (post_signup carol_env carol_signup example_store fresh_res) = Some 302"
    by blast
  from C8_signup_amended [of carol_env carol_signup example_store] 1 j c(2,4) u
  have 2: "users (store_of (post_signup carol_env carol_signup example_store fresh_res)) =
       [alice, bob, carol]"
    by auto
  from C8_signup_amended [of carol_env carol_signup example_store] 1 j d c(4)
  have 3: "distinct (map username
        (users (store_of (post_signup carol_env carol_signup example_store fresh_res))))"
    by simp
  from C8_signup_amended [of carol_env alice_signup example_store] a
  have 4: "status_of (post_signup carol_env alice_signup example_store fresh_res) = Some 409"
    and 5: "store_of (post_signup carol_env alice_signup example_store fresh_res) = example_store"
    by auto
  from C8_signup_amended [of carol_env blank_req example_store] b
  have 6: "status_of (post_signup carol_env blank_req example_store fresh_res) = Some 400"
    and 7: "store_of (post_signup carol_env blank_req example_store fresh_res) = example_store"
    by auto
  show ?thesis using c(1,2) j d 1 2 3 4 5 6 7 by simp
qed

text \<open>
  The claim as it was stated fails twice. 409 exactly when the username is taken and
  whatever the password: alice exists, and with an empty password the answer is 400.
  Success preserves the uniqueness of usernames: a signup with the username \<open>1e400\<close> is
  stored with the username \<open>null\<close>, which is not \<open>===\<close> to the number, so the same signup
  succeeds a second time and two users have the same username.
\<close>

theorem C8_signup_counterexample:
  "users (run [alice_signup_op] initial_store) = [alice]
   \<and> username alice = body_username (alice_signup\<lparr>body_password := JStr []\<rparr>)
   \<and> status_of (post_signup carol_env (alice_signup\<lparr>body_password := JStr []\<rparr>)
        (run [alice_signup_op] initial_store) fresh_res) = Some 400
   \<and> status_of (post_signup overflow_env_1 overflow_signup initial_store fresh_res) = Some 302
   \<and> status_of (post_signup overflow_env_2 overflow_signup
        (store_of (post_signup overflow_env_1 overflow_signup initial_store fresh_res))
        fresh_res) = Some 302
   \<and> map username (users (store_of (post_signup overflow_env_2 overflow_signup
        (store_of (post_signup overflow_env_1 overflow_signup initial_store fresh_res))
        fresh_res))) = [JNull, JNull]"
  by (simp add: status_of_def handler_defs res_defs db_defs flow_defs example_defs
      alice_signup_def alice_signup_op_def carol_env_def overflow_signup_def
      overflow_env_1_def overflow_env_2_def Let_def strict_eq_def)

section \<open>Starting a timer, then listing (C9)\<close>

text \<open>
  C9. For an authenticated user \<open>u\<close> and a non-empty description \<open>d\<close>, the start route
  appends the timer \<open>t\<close> with \<open>isActive = true\<close>, \<open>progress = 0\<close>, \<open>start\<close> the current time
  and \<open>userId = u\<close>, and answers 201 with it. In the store it leaves, the list of the
  active timers of \<open>u\<close> holds \<open>t\<close> exactly once and the list of the stopped ones does not
  hold it. The id of \<open>t\<close> is new: \<open>nanoid()\<close> returned an id no stored timer has.
\<close>

theorem C9_start_then_list:
  assumes "authenticated s rq u"
    and "body_description rq = JStr d" and "d \<noteq> []"
    and "nanoid_1 e \<notin> timer_id ` set (timers s)"
    and "authenticated s rqT u" and "query_isActive rqT = JStr ''true''"
    and "authenticated s rqF u" and "query_isActive rqF \<noteq> JStr ''true''"
    and "t = \<lparr>timer_id = nanoid_1 e, start = Date_now e, description = JStr d,
              isActive = True, userId = Some u, progress = 0, timer_end = None,
              duration = None\<rparr>"
    and "s1 = store_of (post_timers e rq s fresh_res)"
  shows "post_timers e rq s fresh_res =
           Done (s\<lparr>timers := timers s @ [t], writes := writes s @ [TIMERS]\<rparr>)
                \<lparr>statusCode = 201, cookies = [], sent = Some (201, TimerJson t)\<rparr>
       \<and> (\<exists>xs. payload_of (get_timers eT rqT s1 fresh_res) = Some (TimersJson xs) \<and>
                count_list xs t = 1)
       \<and> (\<exists>ys. payload_of (get_timers eF rqF s1 fresh_res) = Some (TimersJson ys) \<and>
                t \<notin> set ys)"
proof -
  have tr: "truthy (body_description rq)" using assms(2,3) by simp
  have out: "post_timers e rq s fresh_res =
           Done (s\<lparr>timers := timers s @ [t], writes := writes s @ [TIMERS]\<rparr>)
                \<lparr>statusCode = 201, cookies = [], sent = Some (201, TimerJson t)\<rparr>"
    using start_201 [OF assms(1) tr, of e] assms(2,9) by simp
  then have s1: "s1 = s\<lparr>timers := timers s @ [t], writes := writes s @ [TIMERS]\<rparr>"
    using assms(10) by simp
  have aT: "authenticated s1 rqT u" and aF: "authenticated s1 rqF u"
    using assms(5,7) by (simp_all add: s1 authenticated_timers_update)
  have fresh: "timer_id t \<notin> timer_id ` set (timers s)"
    using assms(4,9) by simp
  have T: "payload_of (get_timers eT rqT s1 fresh_res) =
           Some (TimersJson (filter (\<lambda>x. isActive x = True \<and> userId x = Some u) (timers s1)))"
    using list_authenticated [OF aT, of eT] assms(6) by (simp add: payload_of_def)
  have F: "payload_of (get_timers eF rqF s1 fresh_res) =
           Some (TimersJson (filter (\<lambda>x. isActive x = False \<and> userId x = Some u) (timers s1)))"
    using list_authenticated [OF aF, of eF] assms(8) by (simp add: payload_of_def)
  have cT: "count_list (filter (\<lambda>x. isActive x = True \<and> userId x = Some u) (timers s1)) t = 1"
    using count_list_filter_fresh [OF fresh] assms(9) by (simp add: s1)
  have cF: "t \<notin> set (filter (\<lambda>x. isActive x = False \<and> userId x = Some u) (timers s1))"
    using assms(9) by (auto simp: s1)
  show ?thesis using out T F cT cF by blast
qed

text \<open>The theorem at a new timer of alice.\<close>

theorem C9_start_then_list_witness:
  "authenticated example_store (alice_req\<lparr>body_description := JStr ''new task''\<rparr>)
     ''V1StGXR8_Z5jdHi6B-myT''
   \<and> nanoid_1 fresh_env \<notin> timer_id ` set (timers example_store)
   \<and> post_timers fresh_env (alice_req\<lparr>body_description := JStr ''new task''\<rparr>)
        example_store fresh_res =
      Done (example_store\<lparr>timers := timers example_store @ [fresh_timer],
                            writes := writes example_store @ [TIMERS]\<rparr>)
           \<lparr>statusCode = 201, cookies = [], sent = Some (201, TimerJson fresh_timer)\<rparr>
   \<and> (\<exists>xs. payload_of (get_timers login_env (alice_req\<lparr>query_isActive := JStr ''true''\<rparr>)
              (store_of (post_timers fresh_env
                 (alice_req\<lparr>body_description := JStr ''new task''\<rparr>) example_store fresh_res))
              fresh_res) = Some (TimersJson xs) \<and> count_list xs fresh_timer = 1)
   \<and> (\<exists>ys. payload_of (get_timers login_env (alice_req\<lparr>query_isActive := JStr ''false''\<rparr>)
              (store_of (post_timers fresh_env
                 (alice_req\<lparr>body_description := JStr ''new task''\<rparr>) example_store fresh_res))
              fresh_res) = Some (TimersJson ys) \<and> fresh_timer \<notin> set ys)"
proof -
  let ?u = "''V1StGXR8_Z5jdHi6B-myT''"
  let ?rq = "alice_req\<lparr>body_description := JStr ''new task''\<rparr>"
  let ?rT = "alice_req\<lparr>query_isActive := JStr ''true''\<rparr>"
  let ?rF = "alice_req\<lparr>query_isActive := JStr ''false''\<rparr>"
  have a: "authenticated example_store ?rq ?u" "authenticated example_store ?rT ?u"
    "authenticated example_store ?rF ?u"
    by (simp_all add: example_defs)
  have d: "body_description ?rq = JStr ''new task''" "''new task'' \<noteq> []" by simp_all
  have f: "nanoid_1 fresh_env \<notin> timer_id ` set (timers example_store)"
    by (simp add: example_defs fresh_env_def)
  have q: "query_isActive ?rT = JStr ''true''" "query_isActive ?rF \<noteq> JStr ''true''"
    by simp_all
  have t: "fresh_timer = \<lparr>timer_id = nanoid_1 fresh_env, start = Date_now fresh_env,
              description = JStr ''new task'', isActive = True, userId = Some ?u,
              progress = 0, timer_end = None, duration = None\<rparr>"
    by (simp add: fresh_timer_def fresh_env_def env_with_def)
  show ?thesis
    using a(1) f
      C9_start_then_list [OF a(1) d f a(2) q(1) a(3) q(2) t refl, of login_env login_env]
    by blast
qed

section \<open>The \<open>isActive\<close> flag of the list route (C10)\<close>

text \<open>
  C10. The filter of the list route is true exactly when the raw query value is the
  string \<open>true\<close>. For every other value (absent, \<open>1\<close>, \<open>TRUE\<close>, a number, an array) the
  route does not fail: it answers 200 with the caller's stopped timers.
\<close>

theorem C10_isActive_flag:
  assumes "authenticated s rq u"
  shows "(query_isActive rq = JStr ''true'' \<longrightarrow>
            get_timers e rq s fresh_res =
            Done s \<lparr>statusCode = 200, cookies = [],
                    sent = Some (200, TimersJson
                      (filter (\<lambda>t. isActive t \<and> userId t = Some u) (timers s)))\<rparr>)
       \<and> (query_isActive rq \<noteq> JStr ''true'' \<longrightarrow>
            get_timers e rq s fresh_res =
            Done s \<lparr>statusCode = 200, cookies = [],
                    sent = Some (200, TimersJson
                      (filter (\<lambda>t. \<not> isActive t \<and> userId t = Some u) (timers s)))\<rparr>)"
  using list_authenticated [OF assms, of e] by simp

theorem C10_isActive_flag_witness:
  "authenticated example_store alice_req ''V1StGXR8_Z5jdHi6B-myT''
   \<and> query_isActive alice_req = JUndefined
   \<and> get_timers (env_with [] [] 3000) alice_req example_store fresh_res =
      Done example_store
        \<lparr>statusCode = 200, cookies = [], sent = Some (200, TimersJson [timer_a2])\<rparr>
   \<and> get_timers (env_with [] [] 3000) (alice_req\<lparr>query_isActive := JStr ''1''\<rparr>)
        example_store fresh_res =
      Done example_store
        \<lparr>statusCode = 200, cookies = [], sent = Some (200, TimersJson [timer_a2])\<rparr>
   \<and> get_timers (env_with [] [] 3000) (alice_req\<lparr>query_isActive := JStr ''TRUE''\<rparr>)
        example_store fresh_res =
      Done example_store
        \<lparr>statusCode = 200, cookies = [], sent = Some (200, TimersJson [timer_a2])\<rparr>
   \<and> get_timers (env_with [] [] 3000) (alice_req\<lparr>query_isActive := JStr ''true''\<rparr>)
        example_store fresh_res =
      Done example_store
        \<lparr>statusCode = 200, cookies = [], sent = Some (200, TimersJson [timer_a1])\<rparr>"
proof -
  let ?u = "''V1StGXR8_Z5jdHi6B-myT''"
  let ?e = "env_with [] [] 3000"
  have a: "authenticated example_store alice_req ?u"
    "authenticated example_store (alice_req\<lparr>query_isActive := JStr ''1''\<rparr>) ?u"
    "authenticated example_store (alice_req\<lparr>query_isActive := JStr ''TRUE''\<rparr>) ?u"
    "authenticated example_store (alice_req\<lparr>query_isActive := JStr ''true''\<rparr>) ?u"
    by (simp_all add: example_defs)
  have q: "query_isActive alice_req = JUndefined"
    by (simp add: alice_req_def blank_req_def)
  have f: "filter (\<lambda>t. isActive t \<and> userId t = Some ?u) (timers example_store) = [timer_a1]"
    "filter (\<lambda>t. \<not> isActive t \<and> userId t = Some ?u) (timers example_store) = [timer_a2]"
    by (simp_all add: example_store_def timer_a1_def timer_b1_def timer_a2_def)
  show ?thesis
    using a(1) q C10_isActive_flag [OF a(1), of ?e] C10_isActive_flag [OF a(2), of ?e]
      C10_isActive_flag [OF a(3), of ?e] C10_isActive_flag [OF a(4), of ?e]
    unfolding f by simp
qed

end
